theory Spec2Isabelle
  imports Complex_Main
begin

section \<open>Python values used by the screener\<close>

text \<open>
  The numeric columns of the screener's data frames are float64 columns.  A cell is
  modelled as \<open>real option\<close>: \<open>None\<close> is NaN, \<open>Some x\<close> is the finite value \<open>x\<close>.
  Every comparison with NaN is false, as in Python.  Infinite values are not modelled;
  a quotient with a zero divisor is NaN here.
\<close>

type_synonym pyfloat = "real option"

definition isna :: "pyfloat \<Rightarrow> bool" where
  "isna x = (x = None)"

fun flt :: "pyfloat \<Rightarrow> pyfloat \<Rightarrow> bool" where
  "flt (Some a) (Some b) = (a < b)"
| "flt _ _ = False"

fun fle :: "pyfloat \<Rightarrow> pyfloat \<Rightarrow> bool" where
  "fle (Some a) (Some b) = (a \<le> b)"
| "fle _ _ = False"

definition fgt :: "pyfloat \<Rightarrow> pyfloat \<Rightarrow> bool" where
  "fgt a b = flt b a"

definition fge :: "pyfloat \<Rightarrow> pyfloat \<Rightarrow> bool" where
  "fge a b = fle b a"

fun fsub :: "pyfloat \<Rightarrow> pyfloat \<Rightarrow> pyfloat" where
  "fsub (Some a) (Some b) = Some (a - b)"
| "fsub _ _ = None"

fun fmul :: "pyfloat \<Rightarrow> pyfloat \<Rightarrow> pyfloat" where
  "fmul (Some a) (Some b) = Some (a * b)"
| "fmul _ _ = None"

fun fdiv :: "pyfloat \<Rightarrow> pyfloat \<Rightarrow> pyfloat" where
  "fdiv (Some a) (Some b) = (if b = 0 then None else Some (a / b))"
| "fdiv _ _ = None"

text \<open>\<open>int(x)\<close> truncates towards zero and raises \<open>ValueError\<close> on NaN.\<close>

fun py_int :: "pyfloat \<Rightarrow> int option" where
  "py_int (Some x) = Some (if 0 \<le> x then \<lfloor>x\<rfloor> else \<lceil>x\<rceil>)"
| "py_int None = None"

text \<open>\<open>d.get(k, default)\<close> on a dictionary or on a row whose column may be absent.\<close>

definition dict_get :: "'a option \<Rightarrow> 'a \<Rightarrow> 'a" where
  "dict_get v dflt = (case v of None \<Rightarrow> dflt | Some x \<Rightarrow> x)"

text \<open>
  A data frame as the strategies see it: the column labels and the rows in index order.
  A row field of type \<open>'a option\<close> is \<open>None\<close> when the frame has no such column.
\<close>

record 'r frame =
  columns :: "string list"
  rows :: "'r list"

definition empty_df :: "'r frame \<Rightarrow> bool" where
  "empty_df df = (rows df = [] \<or> columns df = [])"

definition required_columns :: "string list" where
  "required_columns = [''Open'', ''High'', ''Low'', ''Close'', ''Volume'']"

text \<open>\<open>BaseStrategy.validate_data\<close>; \<open>min_periods\<close> is \<open>config.get('min_periods', 50)\<close>.\<close>

definition validate_data :: "int option \<Rightarrow> 'r frame \<Rightarrow> bool" where
  "validate_data min_periods stock_data =
     (if empty_df stock_data then False
      else if \<not> list_all (\<lambda>col. col \<in> set (columns stock_data)) required_columns then False
      else if int (length (rows stock_data)) < dict_get min_periods 50 then False
      else True)"

section \<open>Turtle strategy\<close>

record TurtleConfig =
  lookback_days :: int
  min_periods :: "int option"
  min_price :: real
  min_volume :: real
  stop_loss_atr :: real
  system1_entry :: int
  system2_entry :: int

record turtle_scores =
  breakout_score :: int
  volume_score :: int
  momentum_score :: int
  total_score :: int

record TurtleSignal =
  symbol :: string
  signal_type :: string
  signal_date :: string
  price :: pyfloat
  atr :: pyfloat
  unit_size :: int
  stop_loss_price :: pyfloat
  breakout_high :: pyfloat
  days_in_breakout :: int
  current_price :: pyfloat
  volume :: pyfloat
  volume_ratio :: pyfloat
  price_change_pct :: pyfloat
  momentum_5d :: pyfloat
  total_score :: int
  breakout_score :: int
  volume_score :: int
  momentum_score :: int

text \<open>
  The latest row of a frame handed to \<open>TurtleStrategy.detect_signals\<close>.  \<open>Date\<close> is the
  row's date already formatted by \<open>strftime\<close>; it is \<open>None\<close> when the access or the
  formatting raises.
\<close>

record turtle_row =
  Date :: "string option"
  Close :: pyfloat
  Volume :: pyfloat
  atr :: "pyfloat option"
  high_20 :: "pyfloat option"
  high_55 :: "pyfloat option"
  volume_ratio :: "pyfloat option"
  price_change_5d :: "pyfloat option"
  price_change_20d :: "pyfloat option"
  system1_breakout :: "bool option"
  system2_breakout :: "bool option"

text \<open>\<open>TurtleStrategy._calculate_signal_score\<close>; \<open>signal_data\<close> is a dictionary.\<close>

definition Turtle_calculate_signal_score :: "(string \<rightharpoonup> pyfloat) \<Rightarrow> turtle_scores" where
  "Turtle_calculate_signal_score signal_data =
     (let price_above = dict_get (signal_data ''price_above_breakout_pct'') (Some 0);
          b = (if flt (Some 0) price_above \<and> fle price_above (Some 2) then 40
               else if flt (Some 2) price_above \<and> fle price_above (Some 5) then 30
               else if flt (Some 5) price_above \<and> fle price_above (Some 10) then 15
               else 5);
          vr = dict_get (signal_data ''volume_ratio'') (Some 1.0);
          v = (if fge vr (Some 2.0) then 35
               else if fge vr (Some 1.5) then 28
               else if fge vr (Some 1.2) then 20
               else 12);
          momentum = dict_get (signal_data ''momentum_5d'') (Some 0);
          m = (if fgt momentum (Some 0.05) then 25
               else if fgt momentum (Some 0.03) then 20
               else if fgt momentum (Some 0.01) then 15
               else if fgt momentum (Some 0) then 8
               else 0)
      in \<lparr> turtle_scores.breakout_score = b, turtle_scores.volume_score = v,
           turtle_scores.momentum_score = m, turtle_scores.total_score = b + v + m \<rparr>)"

text \<open>
  \<open>TurtleStrategy._create_turtle_signal\<close>.  Every exception inside is caught and gives
  \<open>None\<close>: a missing \<open>atr\<close> or \<open>Date\<close> column, and \<open>int\<close> of NaN.
\<close>

definition create_turtle_signal ::
  "TurtleConfig \<Rightarrow> string \<Rightarrow> turtle_row \<Rightarrow> string \<Rightarrow> int \<Rightarrow> real \<Rightarrow> TurtleSignal option" where
  "create_turtle_signal cfg symb row sig_type days account_value =
     (case turtle_row.atr row of
        None \<Rightarrow> None
      | Some row_atr \<Rightarrow>
        (case (if fgt row_atr (Some 0) then py_int (fdiv (Some (account_value * 0.01)) row_atr)
               else Some 0) of
           None \<Rightarrow> None
         | Some usize \<Rightarrow>
           (let stop_loss = fsub (Close row) (fmul (Some (stop_loss_atr cfg)) row_atr);
                bh = (if sig_type = ''system1_entry'' then dict_get (high_20 row) (Close row)
                      else dict_get (high_55 row) (Close row));
                signal_data = [
                  ''price_above_breakout_pct'' \<mapsto>
                     (if fgt bh (Some 0) then fmul (fdiv (fsub (Close row) bh) bh) (Some 100)
                      else Some 0),
                  ''volume_ratio'' \<mapsto> dict_get (turtle_row.volume_ratio row) (Some 1.0),
                  ''momentum_5d'' \<mapsto> dict_get (price_change_5d row) (Some 0)];
                scores = Turtle_calculate_signal_score signal_data
            in (case Date row of
                  None \<Rightarrow> None
                | Some d \<Rightarrow> Some \<lparr>
                    TurtleSignal.symbol = symb,
                    TurtleSignal.signal_type = sig_type,
                    TurtleSignal.signal_date = d,
                    TurtleSignal.price = Close row,
                    TurtleSignal.atr = row_atr,
                    TurtleSignal.unit_size = usize,
                    TurtleSignal.stop_loss_price = stop_loss,
                    TurtleSignal.breakout_high = bh,
                    TurtleSignal.days_in_breakout = days,
                    TurtleSignal.current_price = Close row,
                    TurtleSignal.volume = Volume row,
                    TurtleSignal.volume_ratio = dict_get (turtle_row.volume_ratio row) (Some 1.0),
                    TurtleSignal.price_change_pct = fmul (dict_get (price_change_20d row) (Some 0)) (Some 100),
                    TurtleSignal.momentum_5d = dict_get (price_change_5d row) (Some 0),
                    TurtleSignal.total_score = turtle_scores.total_score scores,
                    TurtleSignal.breakout_score = turtle_scores.breakout_score scores,
                    TurtleSignal.volume_score = turtle_scores.volume_score scores,
                    TurtleSignal.momentum_score = turtle_scores.momentum_score scores \<rparr>))))"

text \<open>\<open>signals.append(signal)\<close> guarded by \<open>if signal\<close>.\<close>

definition append_signal :: "'s list \<Rightarrow> 's option \<Rightarrow> 's list" where
  "append_signal signals s = (case s of None \<Rightarrow> signals | Some x \<Rightarrow> signals @ [x])"

text \<open>\<open>TurtleStrategy.detect_signals\<close>: only the last row is examined.\<close>

definition Turtle_detect_signals ::
  "TurtleConfig \<Rightarrow> string \<Rightarrow> turtle_row frame \<Rightarrow> real \<Rightarrow> TurtleSignal list" where
  "Turtle_detect_signals cfg symb stock_data account_value =
     (if \<not> validate_data (TurtleConfig.min_periods cfg) stock_data then []
      else if int (length (rows stock_data)) < lookback_days cfg then []
      else if length (rows stock_data) > 0 then
        (let row = last (rows stock_data) in
         if flt (Close row) (Some (TurtleConfig.min_price cfg)) then []
         else if flt (Volume row) (Some (TurtleConfig.min_volume cfg)) then []
         else if isna (dict_get (turtle_row.atr row) None)
                 \<or> fle (dict_get (turtle_row.atr row) None) (Some 0) then []
         else
           (let signals1 =
                  (if dict_get (system1_breakout row) False
                   then append_signal []
                          (create_turtle_signal cfg symb row ''system1_entry''
                             (system1_entry cfg) account_value)
                   else []);
                signals2 =
                  (if dict_get (system2_breakout row) False
                   then append_signal signals1
                          (create_turtle_signal cfg symb row ''system2_entry''
                             (system2_entry cfg) account_value)
                   else signals1)
            in signals2))
      else [])"

section \<open>BNF (deviation) strategy\<close>

record BNFConfig =
  ma_period :: int
  deviation_threshold :: real
  min_price :: real
  min_volume :: real
  min_periods :: "int option"

record bnf_scores =
  deviation_score :: int
  volume_score :: int
  total_score :: int

record BNFSignal =
  symbol :: string
  signal_date :: string
  price :: pyfloat
  ma25 :: pyfloat
  deviation_rate :: pyfloat
  volume :: pyfloat
  volume_ratio :: pyfloat
  deviation_score :: int
  volume_score :: int
  total_score :: int

record bnf_row =
  Date :: "string option"
  Close :: pyfloat
  Volume :: pyfloat
  ma25 :: "pyfloat option"
  deviation_rate :: "pyfloat option"
  volume_ratio :: "pyfloat option"

text \<open>
  \<open>series.rolling(window=n).mean().iloc[-1]\<close>: the mean of the last \<open>n\<close> cells, NaN when
  there are fewer than \<open>n\<close> cells or one of them is NaN.
\<close>

definition rolling_mean_last :: "nat \<Rightarrow> pyfloat list \<Rightarrow> pyfloat" where
  "rolling_mean_last n xs =
     (if n = 0 \<or> length xs < n then None
      else (let w = drop (length xs - n) xs in
            if list_all (\<lambda>x. x \<noteq> None) w then Some (sum_list (map the w) / real n)
            else None))"

text \<open>\<open>BNFStrategy._calculate_signal_score\<close>.\<close>

definition BNF_calculate_signal_score :: "pyfloat \<Rightarrow> pyfloat \<Rightarrow> bnf_scores" where
  "BNF_calculate_signal_score dev_rate vol_ratio =
     (let d = (if fle dev_rate (Some (- 0.25)) then 60
               else if fle dev_rate (Some (- 0.23)) then 50
               else if fle dev_rate (Some (- 0.21)) then 40
               else if fle dev_rate (Some (- 0.20)) then 30
               else 0);
          v = (if fge vol_ratio (Some 2.0) then 40
               else if fge vol_ratio (Some 1.5) then 30
               else if fge vol_ratio (Some 1.2) then 20
               else if fge vol_ratio (Some 1.0) then 10
               else 5)
      in \<lparr> bnf_scores.deviation_score = d, bnf_scores.volume_score = v,
           bnf_scores.total_score = d + v \<rparr>)"

text \<open>
  \<open>BNFStrategy.detect_signals\<close>.  The mark written back into the frame's
  \<open>bnf_buy_signal\<close> column after a signal is not part of the returned list and is left out.
\<close>

definition BNF_detect_signals :: "BNFConfig \<Rightarrow> string \<Rightarrow> bnf_row frame \<Rightarrow> BNFSignal list" where
  "BNF_detect_signals cfg symb stock_data =
     (if \<not> validate_data (BNFConfig.min_periods cfg) stock_data then []
      else if int (length (rows stock_data)) < ma_period cfg then []
      else
        (let last_row = last (rows stock_data) in
         if flt (bnf_row.Close last_row) (Some (BNFConfig.min_price cfg)) then []
         else if flt (bnf_row.Volume last_row) (Some (BNFConfig.min_volume cfg)) then []
         else if isna (dict_get (bnf_row.ma25 last_row) None)
                 \<or> isna (dict_get (bnf_row.deviation_rate last_row) None) then []
         else if fle (dict_get (bnf_row.deviation_rate last_row) None)
                     (Some (deviation_threshold cfg)) then
           (let vr0 = dict_get (bnf_row.volume_ratio last_row) (Some 1.0);
                vr = (if isna vr0 \<and> ''volume_20'' \<in> set (columns stock_data) then
                        (let volume_20 = rolling_mean_last 20 (map bnf_row.Volume (rows stock_data))
                         in if fgt volume_20 (Some 0)
                            then fdiv (bnf_row.Volume last_row) volume_20 else Some 1.0)
                      else vr0);
                scores = BNF_calculate_signal_score
                           (dict_get (bnf_row.deviation_rate last_row) None) vr
            in (case bnf_row.Date last_row of
                  None \<Rightarrow> []
                | Some d \<Rightarrow> [\<lparr>
                    BNFSignal.symbol = symb,
                    BNFSignal.signal_date = d,
                    BNFSignal.price = bnf_row.Close last_row,
                    BNFSignal.ma25 = dict_get (bnf_row.ma25 last_row) None,
                    BNFSignal.deviation_rate = dict_get (bnf_row.deviation_rate last_row) None,
                    BNFSignal.volume = bnf_row.Volume last_row,
                    BNFSignal.volume_ratio = vr,
                    BNFSignal.deviation_score = bnf_scores.deviation_score scores,
                    BNFSignal.volume_score = bnf_scores.volume_score scores,
                    BNFSignal.total_score = bnf_scores.total_score scores \<rparr>]))
         else []))"

section \<open>Coiled-Spring strategy\<close>

record CoiledSpringConfig =
  volatility_threshold :: real
  volatility_contract_ratio :: real
  volume_contract_ratio :: real
  trend_days_threshold :: real
  trend_period :: int
  min_price :: real
  min_volume :: real
  min_periods :: "int option"

record cs_scores =
  volatility_score :: int
  trend_score :: int
  volume_score :: int
  total_score :: int

record CoiledSpringSignal =
  symbol :: string
  signal_date :: string
  price :: pyfloat
  volatility_10d :: pyfloat
  volatility_60d :: pyfloat
  ma_20_ema :: pyfloat
  ma_50_sma :: pyfloat
  ma_100_sma :: pyfloat
  volume_ratio :: pyfloat
  up_trend_strength :: pyfloat
  total_score :: int
  volatility_score :: int
  trend_score :: int
  volume_score :: int

text \<open>
  The numeric indicator columns that steps 1 to 5 of
  \<open>CoiledSpringStrategy.calculate_indicators\<close> obtain from talib and from pandas rolling
  windows, at one row.
\<close>

record cs_numeric =
  ema_20 :: pyfloat
  sma_50 :: pyfloat
  sma_100 :: pyfloat
  sd_10 :: pyfloat
  sd_60 :: pyfloat
  vol_10 :: pyfloat
  vol_60 :: pyfloat
  price_up_6mo_days :: pyfloat
  diff_percentage_3mo :: pyfloat

record cs_row =
  Date :: "string option"
  Close :: pyfloat
  Volume :: pyfloat
  ema_20 :: "pyfloat option"
  sma_50 :: "pyfloat option"
  sma_100 :: "pyfloat option"
  sd_10 :: "pyfloat option"
  sd_60 :: "pyfloat option"
  vol_10 :: "pyfloat option"
  vol_60 :: "pyfloat option"
  price_up_6mo_days :: "pyfloat option"
  diff_percentage_3mo :: "pyfloat option"
  volatility_check :: "bool option"
  price_contract :: "bool option"
  ma_alignment :: "bool option"
  up_trend_6mo :: "bool option"
  vol_contract :: "bool option"

text \<open>
  Step 6 of \<open>calculate_indicators\<close>: the five screening conditions, computed row by row
  from the numeric columns.
\<close>

definition cs_conditions :: "CoiledSpringConfig \<Rightarrow> cs_numeric \<Rightarrow> cs_row \<Rightarrow> cs_row" where
  "cs_conditions cfg n r = r \<lparr>
     cs_row.ema_20 := Some (cs_numeric.ema_20 n),
     cs_row.sma_50 := Some (cs_numeric.sma_50 n),
     cs_row.sma_100 := Some (cs_numeric.sma_100 n),
     cs_row.sd_10 := Some (cs_numeric.sd_10 n),
     cs_row.sd_60 := Some (cs_numeric.sd_60 n),
     cs_row.vol_10 := Some (cs_numeric.vol_10 n),
     cs_row.vol_60 := Some (cs_numeric.vol_60 n),
     cs_row.price_up_6mo_days := Some (cs_numeric.price_up_6mo_days n),
     cs_row.diff_percentage_3mo := Some (cs_numeric.diff_percentage_3mo n),
     volatility_check :=
       Some (fgt (cs_numeric.diff_percentage_3mo n) (Some (volatility_threshold cfg))),
     price_contract :=
       Some (flt (cs_numeric.sd_10 n)
               (fmul (cs_numeric.sd_60 n) (Some (volatility_contract_ratio cfg)))),
     ma_alignment :=
       Some (fgt (cs_numeric.ema_20 n) (cs_numeric.sma_50 n)
             \<and> fgt (cs_numeric.sma_50 n) (cs_numeric.sma_100 n)),
     up_trend_6mo :=
       Some (fgt (cs_numeric.price_up_6mo_days n) (Some (trend_days_threshold cfg))),
     vol_contract :=
       Some (flt (cs_numeric.vol_10 n)
               (fmul (cs_numeric.vol_60 n) (Some (volume_contract_ratio cfg)))) \<rparr>"

definition cs_indicator_columns :: "string list" where
  "cs_indicator_columns =
     [''ema_20'', ''sma_50'', ''sma_100'', ''sd_10'', ''sd_60'', ''vol_10'', ''vol_60'',
      ''price_up'', ''price_up_6mo_days'', ''high_60'', ''low_60'', ''diff_percentage_3mo'',
      ''volatility_check'', ''price_contract'', ''ma_alignment'', ''up_trend_6mo'',
      ''vol_contract'']"

text \<open>
  \<open>CoiledSpringStrategy.calculate_indicators\<close>.  The library part (steps 1 to 5) is the
  parameter \<open>lib\<close>: on the frame it yields either \<open>Inr f\<close>, with \<open>f i\<close> the numeric
  indicators of row \<open>i\<close>, or \<open>Inl df'\<close> when a library call raised, \<open>df'\<close> being the frame
  with the columns assigned up to that point; the \<open>except\<close> branch returns that frame.
\<close>

definition CoiledSpring_calculate_indicators ::
  "CoiledSpringConfig \<Rightarrow> (cs_row frame \<Rightarrow> cs_row frame + (nat \<Rightarrow> cs_numeric))
     \<Rightarrow> cs_row frame \<Rightarrow> cs_row frame" where
  "CoiledSpring_calculate_indicators cfg lib stock_data =
     (case lib stock_data of
        Inl df' \<Rightarrow> df'
      | Inr f \<Rightarrow> stock_data \<lparr>
          columns := columns stock_data
                     @ filter (\<lambda>c. c \<notin> set (columns stock_data)) cs_indicator_columns,
          rows := map (\<lambda>(i, r). cs_conditions cfg (f i) r)
                    (zip [0 ..< length (rows stock_data)] (rows stock_data)) \<rparr>)"

text \<open>\<open>CoiledSpringStrategy._calculate_signal_score\<close>.\<close>

definition CoiledSpring_calculate_signal_score ::
  "pyfloat \<Rightarrow> pyfloat \<Rightarrow> bool \<Rightarrow> pyfloat \<Rightarrow> pyfloat \<Rightarrow> cs_scores" where
  "CoiledSpring_calculate_signal_score v10 v60 aligned up_strength vol_ratio =
     (let vs = (if fle v10 (Some 0.01) then 40
                else if fle v10 (Some 0.02) then 30
                else if fle v10 (Some 0.03) then 20
                else if fle v10 (Some 0.05) then 10
                else 0);
          ts = (if aligned then 15 else 0)
               + (if fgt up_strength (Some 0.6) then 15
                  else if fgt up_strength (Some 0.55) then 10
                  else if fgt up_strength (Some 0.5) then 5
                  else 0);
          vols = (if fle vol_ratio (Some 0.4) then 20
                  else if fle vol_ratio (Some 0.5) then 15
                  else if fle vol_ratio (Some 0.6) then 10
                  else if fle vol_ratio (Some 0.7) then 5
                  else 0);
          total0 = (if fgt v60 (Some 0.4) then 10
                    else if fgt v60 (Some 0.3) then 5
                    else 0)
      in \<lparr> cs_scores.volatility_score = vs, cs_scores.trend_score = ts,
           cs_scores.volume_score = vols, cs_scores.total_score = total0 + (vs + ts + vols) \<rparr>)"

text \<open>
  The body of the five-condition branch of \<open>detect_signals\<close>: the scores and the signal
  for the latest row.  An absent column raises \<open>KeyError\<close>, here \<open>None\<close>.
\<close>

definition cs_make_signal ::
  "CoiledSpringConfig \<Rightarrow> string \<Rightarrow> cs_row \<Rightarrow> CoiledSpringSignal option" where
  "cs_make_signal cfg symb row =
     (case cs_row.price_up_6mo_days row of None \<Rightarrow> None | Some up_days \<Rightarrow>
     (case cs_row.vol_60 row of None \<Rightarrow> None | Some v60 \<Rightarrow>
     (case cs_row.vol_10 row of None \<Rightarrow> None | Some v10 \<Rightarrow>
     (case cs_row.sd_10 row of None \<Rightarrow> None | Some s10 \<Rightarrow>
     (case cs_row.sd_60 row of None \<Rightarrow> None | Some s60 \<Rightarrow>
     (case ma_alignment row of None \<Rightarrow> None | Some al \<Rightarrow>
     (case cs_row.Date row of None \<Rightarrow> None | Some d \<Rightarrow>
     (case cs_row.ema_20 row of None \<Rightarrow> None | Some ema \<Rightarrow>
     (case cs_row.sma_50 row of None \<Rightarrow> None | Some sma50 \<Rightarrow>
     (case cs_row.sma_100 row of None \<Rightarrow> None | Some sma100 \<Rightarrow>
        (let up_strength = fdiv up_days (Some (real_of_int (trend_period cfg)));
             vol_ratio = (if fgt v60 (Some 0) then fdiv v10 v60 else Some 1.0);
             scores = CoiledSpring_calculate_signal_score s10 s60 al up_strength vol_ratio
         in Some \<lparr>
              CoiledSpringSignal.symbol = symb,
              CoiledSpringSignal.signal_date = d,
              CoiledSpringSignal.price = cs_row.Close row,
              CoiledSpringSignal.volatility_10d = s10,
              CoiledSpringSignal.volatility_60d = s60,
              CoiledSpringSignal.ma_20_ema = ema,
              CoiledSpringSignal.ma_50_sma = sma50,
              CoiledSpringSignal.ma_100_sma = sma100,
              CoiledSpringSignal.volume_ratio = vol_ratio,
              CoiledSpringSignal.up_trend_strength = up_strength,
              CoiledSpringSignal.total_score = cs_scores.total_score scores,
              CoiledSpringSignal.volatility_score = cs_scores.volatility_score scores,
              CoiledSpringSignal.trend_score = cs_scores.trend_score scores,
              CoiledSpringSignal.volume_score = cs_scores.volume_score scores \<rparr>)))))))))))"

text \<open>
  \<open>CoiledSpringStrategy.detect_signals\<close>.  A \<open>KeyError\<close> on a column that is absent is
  caught by the method's \<open>except\<close> branch, which returns the (empty) signal list.
\<close>

definition CoiledSpring_detect_signals ::
  "CoiledSpringConfig \<Rightarrow> (cs_row frame \<Rightarrow> cs_row frame + (nat \<Rightarrow> cs_numeric))
     \<Rightarrow> string \<Rightarrow> cs_row frame \<Rightarrow> CoiledSpringSignal list" where
  "CoiledSpring_detect_signals cfg lib symb stock_data0 =
     (if \<not> validate_data (CoiledSpringConfig.min_periods cfg) stock_data0 then []
      else if int (length (rows stock_data0)) < trend_period cfg then []
      else
        (let stock_data = CoiledSpring_calculate_indicators cfg lib stock_data0 in
         if length (rows stock_data) > 0 then
           (let row = last (rows stock_data) in
            if flt (cs_row.Close row) (Some (CoiledSpringConfig.min_price cfg))
               \<or> flt (cs_row.Volume row) (Some (CoiledSpringConfig.min_volume cfg))
               \<or> isna (dict_get (cs_row.ema_20 row) None)
               \<or> isna (dict_get (cs_row.sma_50 row) None)
               \<or> isna (dict_get (cs_row.sma_100 row) None) then []
            else if dict_get (volatility_check row) False
                    \<and> dict_get (price_contract row) False
                    \<and> dict_get (ma_alignment row) False
                    \<and> dict_get (up_trend_6mo row) False
                    \<and> dict_get (vol_contract row) False
            then append_signal [] (cs_make_signal cfg symb row)
            else [])
         else []))"

subsection \<open>Notions used to state the scoring properties\<close>

text \<open>
  The points that \<open>CoiledSpringStrategy._calculate_signal_score\<close> stores in
  \<open>total_score\<close> for the 60-day volatility before it adds the three named sub-scores.
\<close>

definition cs_bonus :: "pyfloat \<Rightarrow> int" where
  "cs_bonus v60 = (if fgt v60 (Some 0.4) then 10 else if fgt v60 (Some 0.3) then 5 else 0)"

text \<open>How many of the five conditions hold on a row, read as \<open>row.get(flag, False)\<close>.\<close>

definition cs_conditions_held :: "cs_row \<Rightarrow> nat" where
  "cs_conditions_held row =
     length (filter (\<lambda>b. b)
       [dict_get (volatility_check row) False, dict_get (price_contract row) False,
        dict_get (ma_alignment row) False, dict_get (up_trend_6mo row) False,
        dict_get (vol_contract row) False])"

subsection \<open>Example inputs\<close>

definition example_columns :: "string list" where
  "example_columns = [''symbol'', ''Date'', ''Open'', ''High'', ''Low'', ''Close'', ''Volume'']"

definition turtle_example_config :: TurtleConfig where
  "turtle_example_config = \<lparr>
     lookback_days = 60, TurtleConfig.min_periods = Some 60, TurtleConfig.min_price = 10,
     TurtleConfig.min_volume = 500000, stop_loss_atr = 2, system1_entry = 20,
     system2_entry = 55 \<rparr>"

definition turtle_example_row :: turtle_row where
  "turtle_example_row = \<lparr>
     turtle_row.Date = Some ''2024-06-01'', turtle_row.Close = Some 105,
     turtle_row.Volume = Some 1000000, turtle_row.atr = Some (Some 2),
     high_20 = Some (Some 104), high_55 = Some (Some 110),
     turtle_row.volume_ratio = Some (Some 1.6), price_change_5d = Some (Some 0.05),
     price_change_20d = Some (Some 0.1), system1_breakout = Some True,
     system2_breakout = Some False \<rparr>"

definition turtle_example_frame :: "turtle_row frame" where
  "turtle_example_frame =
     \<lparr> columns = example_columns, rows = replicate 60 turtle_example_row \<rparr>"

definition bnf_example_config :: BNFConfig where
  "bnf_example_config = \<lparr>
     ma_period = 25, deviation_threshold = - 0.20, BNFConfig.min_price = 10,
     BNFConfig.min_volume = 500000, BNFConfig.min_periods = Some 30 \<rparr>"

definition bnf_example_row :: bnf_row where
  "bnf_example_row = \<lparr>
     bnf_row.Date = Some ''2024-06-01'', bnf_row.Close = Some 79,
     bnf_row.Volume = Some 600000, bnf_row.ma25 = Some (Some 100),
     bnf_row.deviation_rate = Some (Some (- 0.21)),
     bnf_row.volume_ratio = Some (Some 1.3) \<rparr>"

definition bnf_example_frame :: "bnf_row frame" where
  "bnf_example_frame = \<lparr> columns = example_columns, rows = replicate 30 bnf_example_row \<rparr>"

definition cs_example_config :: CoiledSpringConfig where
  "cs_example_config = \<lparr>
     volatility_threshold = 0.3, volatility_contract_ratio = 0.5,
     volume_contract_ratio = 0.55, trend_days_threshold = 60, trend_period = 120,
     CoiledSpringConfig.min_price = 10, CoiledSpringConfig.min_volume = 500000,
     CoiledSpringConfig.min_periods = Some 120 \<rparr>"

definition cs_example_row :: cs_row where
  "cs_example_row = \<lparr>
     cs_row.Date = Some ''2024-06-01'', cs_row.Close = Some 112, cs_row.Volume = Some 600000,
     cs_row.ema_20 = None, cs_row.sma_50 = None, cs_row.sma_100 = None, cs_row.sd_10 = None,
     cs_row.sd_60 = None, cs_row.vol_10 = None, cs_row.vol_60 = None,
     cs_row.price_up_6mo_days = None, cs_row.diff_percentage_3mo = None,
     volatility_check = None, price_contract = None, ma_alignment = None,
     up_trend_6mo = None, vol_contract = None \<rparr>"

definition cs_example_frame :: "cs_row frame" where
  "cs_example_frame = \<lparr> columns = example_columns, rows = replicate 120 cs_example_row \<rparr>"

text \<open>Indicator values under which all five conditions hold.\<close>

definition cs_example_numeric :: cs_numeric where
  "cs_example_numeric = \<lparr>
     cs_numeric.ema_20 = Some 110, cs_numeric.sma_50 = Some 105, cs_numeric.sma_100 = Some 100,
     cs_numeric.sd_10 = Some 1, cs_numeric.sd_60 = Some 3, cs_numeric.vol_10 = Some 500000,
     cs_numeric.vol_60 = Some 1000000, cs_numeric.price_up_6mo_days = Some 70,
     cs_numeric.diff_percentage_3mo = Some 0.35 \<rparr>"

definition cs_example_lib :: "cs_row frame \<Rightarrow> cs_row frame + (nat \<Rightarrow> cs_numeric)" where
  "cs_example_lib df = Inr (\<lambda>i. cs_example_numeric)"

text \<open>
  The same values with exactly 60 up-days in the window: \<open>up_trend_6mo\<close> fails
  (\<open>60 > 60\<close> is false) and the other four conditions hold.
\<close>

definition cs_example_lib4 :: "cs_row frame \<Rightarrow> cs_row frame + (nat \<Rightarrow> cs_numeric)" where
  "cs_example_lib4 df =
     Inr (\<lambda>i. cs_example_numeric \<lparr> cs_numeric.price_up_6mo_days := Some 60 \<rparr>)"

text \<open>The signals the three evaluators emit on the example inputs.\<close>

definition turtle_example_result :: TurtleSignal where
  "turtle_example_result = \<lparr>
       TurtleSignal.symbol = ''X'', TurtleSignal.signal_type = ''system1_entry'',
       TurtleSignal.signal_date = ''2024-06-01'', TurtleSignal.price = Some 105,
       TurtleSignal.atr = Some 2, TurtleSignal.unit_size = 500,
       TurtleSignal.stop_loss_price = Some 101, TurtleSignal.breakout_high = Some 104,
       TurtleSignal.days_in_breakout = 20, TurtleSignal.current_price = Some 105,
       TurtleSignal.volume = Some 1000000, TurtleSignal.volume_ratio = Some 1.6,
       TurtleSignal.price_change_pct = Some 10, TurtleSignal.momentum_5d = Some 0.05,
       TurtleSignal.total_score = 88, TurtleSignal.breakout_score = 40,
       TurtleSignal.volume_score = 28, TurtleSignal.momentum_score = 20 \<rparr>"

definition bnf_example_result :: BNFSignal where
  "bnf_example_result = \<lparr>
     BNFSignal.symbol = ''X'', BNFSignal.signal_date = ''2024-06-01'',
     BNFSignal.price = Some 79, BNFSignal.ma25 = Some 100,
     BNFSignal.deviation_rate = Some (- 0.21), BNFSignal.volume = Some 600000,
     BNFSignal.volume_ratio = Some 1.3, BNFSignal.deviation_score = 40,
     BNFSignal.volume_score = 20, BNFSignal.total_score = 60 \<rparr>"

definition cs_example_result :: CoiledSpringSignal where
  "cs_example_result = \<lparr>
     CoiledSpringSignal.symbol = ''X'', CoiledSpringSignal.signal_date = ''2024-06-01'',
     CoiledSpringSignal.price = Some 112, CoiledSpringSignal.volatility_10d = Some 1,
     CoiledSpringSignal.volatility_60d = Some 3, CoiledSpringSignal.ma_20_ema = Some 110,
     CoiledSpringSignal.ma_50_sma = Some 105, CoiledSpringSignal.ma_100_sma = Some 100,
     CoiledSpringSignal.volume_ratio = Some 0.5,
     CoiledSpringSignal.up_trend_strength = Some (70 / 120),
     CoiledSpringSignal.total_score = 50, CoiledSpringSignal.volatility_score = 0,
     CoiledSpringSignal.trend_score = 25, CoiledSpringSignal.volume_score = 15 \<rparr>"

section \<open>Persistence store\<close>

text \<open>
  The \<open>date\<close> column of table \<open>stock_data\<close> holds ISO dates \<open>YYYY-MM-DD\<close> as text.
  Their text order is the calendar order, and \<open>strptime\<close> and \<open>strftime\<close> with
  \<open>'%Y-%m-%d'\<close> convert between the text and the day.  A date is modelled by its
  proleptic Gregorian day number, as \<open>date.toordinal()\<close> gives it; \<open>timedelta(days=n)\<close>
  adds \<open>n\<close>.
\<close>

type_synonym date = int

text \<open>
  A row of the table: the two key columns, either of which may be NULL (\<open>None\<close>), and
  the remaining columns as one value.
\<close>

record 'v stock_row =
  date :: "date option"
  symbol :: "string option"
  payload :: 'v

type_synonym 'v database = "'v stock_row list"

datatype db_error = IntegrityError

text \<open>
  The primary key \<open>(date, symbol)\<close>.  SQLite keeps NULLs in a primary key distinct, so
  only rows with both columns present can collide.
\<close>

definition key_of :: "'v stock_row \<Rightarrow> (date \<times> string) option" where
  "key_of r =
     (case date r of None \<Rightarrow> None
      | Some d \<Rightarrow> (case symbol r of None \<Rightarrow> None | Some s \<Rightarrow> Some (d, s)))"

text \<open>\<open>SELECT MAX(date) FROM stock_data WHERE symbol = ?\<close>; NULL when nothing matches.\<close>

definition max_date :: "'v database \<Rightarrow> string \<Rightarrow> date option" where
  "max_date db s =
     (case List.map_filter (\<lambda>r. if symbol r = Some s then date r else None) db of
        [] \<Rightarrow> None
      | d # ds \<Rightarrow> Some (fold max ds d))"

text \<open>
  The body of the loop of \<open>DatabaseManager.get_missing_dates\<close> for one symbol:
  \<open>None\<close> is the \<open>continue\<close> that leaves the symbol out of the result.
\<close>

definition update_start_for :: "date \<Rightarrow> date \<Rightarrow> date option \<Rightarrow> date option" where
  "update_start_for end_dt start_dt latest =
     (case latest of
        Some latest_dt \<Rightarrow>
          if latest_dt \<ge> end_dt then None
          else (let update_start_dt = latest_dt + 1 in
                if update_start_dt < start_dt then Some start_dt else Some update_start_dt)
      | None \<Rightarrow> Some start_dt)"

text \<open>\<open>DatabaseManager.get_missing_dates\<close>: the dictionary symbol \<open>\<mapsto>\<close> fetch start.\<close>

definition get_missing_dates ::
  "'v database \<Rightarrow> string list \<Rightarrow> date \<Rightarrow> int \<Rightarrow> (string \<rightharpoonup> date)" where
  "get_missing_dates db symbols end_dt days_back =
     (let start_dt = end_dt - days_back in
      fold (\<lambda>s missing_dates.
              case update_start_for end_dt start_dt (max_date db s) of
                None \<Rightarrow> missing_dates
              | Some update_start \<Rightarrow> missing_dates(s \<mapsto> update_start))
        symbols Map.empty)"

text \<open>\<open>DELETE FROM stock_data WHERE date = ? AND symbol = ?\<close>.\<close>

definition delete_row :: "date \<Rightarrow> string \<Rightarrow> 'v database \<Rightarrow> 'v database" where
  "delete_row d s db = filter (\<lambda>r. \<not> (date r = Some d \<and> symbol r = Some s)) db"

text \<open>
  The deletion loop of \<open>save_stock_data\<close>: a row whose date or symbol is missing
  deletes nothing.
\<close>

fun delete_old :: "'v stock_row list \<Rightarrow> 'v database \<Rightarrow> 'v database" where
  "delete_old [] db = db"
| "delete_old (r # rs) db =
     delete_old rs
       (case date r of None \<Rightarrow> db
        | Some d \<Rightarrow> (case symbol r of None \<Rightarrow> db | Some s \<Rightarrow> delete_row d s db))"

text \<open>
  \<open>to_sql(..., if_exists='append')\<close>: the rows are inserted in order; a row whose key is
  already in the table violates the primary key and raises.
\<close>

fun insert_rows :: "'v stock_row list \<Rightarrow> 'v database \<Rightarrow> db_error + 'v database" where
  "insert_rows [] db = Inr db"
| "insert_rows (r # rs) db =
     (if key_of r \<noteq> None \<and> key_of r \<in> set (map key_of db) then Inl IntegrityError
      else insert_rows rs (db @ [r]))"

text \<open>
  \<open>DatabaseManager.save_stock_data\<close>.  The deletions and the insertion run in one
  transaction; \<open>Inl\<close> is the exception of a failed insertion, after which the
  transaction is rolled back and the table is as it was.
\<close>

definition save_stock_data :: "'v database \<Rightarrow> 'v stock_row list \<Rightarrow> db_error + 'v database" where
  "save_stock_data db stock_data =
     (if stock_data = [] then Inr db
      else insert_rows stock_data (delete_old stock_data db))"

subsection \<open>Calendar arithmetic of Python's \<open>datetime\<close>\<close>

definition days_before_year :: "int \<Rightarrow> int" where
  "days_before_year year =
     (let y = year - 1 in y * 365 + y div 4 - y div 100 + y div 400)"

definition is_leap :: "int \<Rightarrow> bool" where
  "is_leap year = (year mod 4 = 0 \<and> (year mod 100 \<noteq> 0 \<or> year mod 400 = 0))"

definition DAYS_IN_MONTH :: "int list" where
  "DAYS_IN_MONTH = [-1, 31, 28, 31, 30, 31, 30, 31, 31, 30, 31, 30, 31]"

definition DAYS_BEFORE_MONTH :: "int list" where
  "DAYS_BEFORE_MONTH = [-1, 0, 31, 59, 90, 120, 151, 181, 212, 243, 273, 304, 334]"

definition days_before_month :: "int \<Rightarrow> int \<Rightarrow> int" where
  "days_before_month year month =
     DAYS_BEFORE_MONTH ! nat month + (if month > 2 \<and> is_leap year then 1 else 0)"

text \<open>\<open>_ymd2ord\<close>: the day number of a calendar date with \<open>1 \<le> month \<le> 12\<close>.\<close>

definition ymd2ord :: "int \<Rightarrow> int \<Rightarrow> int \<Rightarrow> date" where
  "ymd2ord year month day = days_before_year year + days_before_month year month + day"

text \<open>\<open>_ord2ymd\<close>: the calendar date of a day number.\<close>

definition ord2ymd :: "date \<Rightarrow> int \<times> int \<times> int" where
  "ord2ymd n0 =
     (let n = n0 - 1;
          n400 = n div 146097; n = n mod 146097;
          year = n400 * 400 + 1;
          n100 = n div 36524; n = n mod 36524;
          n4 = n div 1461; n = n mod 1461;
          n1 = n div 365; n = n mod 365;
          year = year + n100 * 100 + n4 * 4 + n1
      in if n1 = 4 \<or> n100 = 4 then (year - 1, 12, 31)
         else
           (let leapyear = (n1 = 3 \<and> (n4 \<noteq> 24 \<or> n100 = 3));
                month = (n + 50) div 32;
                preceding = DAYS_BEFORE_MONTH ! nat month
                            + (if month > 2 \<and> leapyear then 1 else 0)
            in if preceding > n then
                 (let month = month - 1;
                      preceding = preceding
                        - (DAYS_IN_MONTH ! nat month
                           + (if month = 2 \<and> leapyear then 1 else 0))
                  in (year, month, n - preceding + 1))
               else (year, month, n - preceding + 1)))"

subsection \<open>The gap-resolver scenario\<close>

definition scenario_as_of :: date where
  "scenario_as_of = ymd2ord 2024 6 1"

text \<open>One row per day from \<open>first_day\<close> to \<open>last_day\<close> for one symbol.\<close>

definition daily_rows :: "string \<Rightarrow> date \<Rightarrow> date \<Rightarrow> unit stock_row list" where
  "daily_rows s first_day last_day =
     map (\<lambda>d. \<lparr> date = Some d, symbol = Some s, payload = () \<rparr>) [first_day .. last_day]"

subsection \<open>Example rows and tables\<close>

definition upsert_r1 :: "int stock_row" where
  "upsert_r1 = \<lparr> date = Some 739038, symbol = Some ''X'', payload = 1 \<rparr>"

definition upsert_r2 :: "int stock_row" where
  "upsert_r2 = \<lparr> date = Some 739038, symbol = Some ''X'', payload = 2 \<rparr>"

definition upsert_other :: "int stock_row" where
  "upsert_other = \<lparr> date = Some 739038, symbol = Some ''Y'', payload = 3 \<rparr>"

definition resolver_db1 :: "unit database" where
  "resolver_db1 = [\<lparr> date = Some (ymd2ord 2024 5 20), symbol = Some ''X'', payload = () \<rparr>]"

definition resolver_db2 :: "unit database" where
  "resolver_db2 = [\<lparr> date = Some (ymd2ord 2024 5 25), symbol = Some ''X'', payload = () \<rparr>]"

section \<open>Validator and cleaner\<close>

text \<open>
  An OHLCV frame: the column labels and, per row, the date (as a day number) and the
  five numeric cells, already converted to float (NaN is \<open>None\<close>).  A cell of a column
  that the frame does not have is never read.
\<close>

record ohlcv =
  Date :: date
  Open :: pyfloat
  High :: pyfloat
  Low :: pyfloat
  Close :: pyfloat
  Volume :: pyfloat

datatype validation_error =
    EmptyData
  | MissingColumns "string list"
  | NonPositive string
  | NegativeVolume
  | HighBelowLow
  | DuplicateDates nat

datatype validation_warning =
    HighBelow string
  | LowAbove string
  | LargePriceChanges nat
  | VeryLowPrice
  | ZeroVolume nat
  | ExtremeVolume nat
  | DatesNotSorted
  | UnusualDateGaps nat

record validation_stats =
  total_records :: nat
  avg_volume :: pyfloat
  max_volume :: pyfloat

record validation_result =
  is_valid :: bool
  errors :: "validation_error list"
  warnings :: "validation_warning list"
  stats :: "validation_stats option"

subsection \<open>Column reductions of pandas\<close>

text \<open>The cells of a column that are not NaN.\<close>

definition valid_cells :: "pyfloat list \<Rightarrow> real list" where
  "valid_cells xs = List.map_filter (\<lambda>x. x) xs"

text \<open>\<open>Series.mean()\<close>, \<open>Series.min()\<close> and \<open>Series.max()\<close> skip NaN and are NaN on no data.\<close>

definition col_mean :: "pyfloat list \<Rightarrow> pyfloat" where
  "col_mean xs =
     (let vs = valid_cells xs in
      if vs = [] then None else Some (sum_list vs / real (length vs)))"

definition col_min :: "pyfloat list \<Rightarrow> pyfloat" where
  "col_min xs = (case valid_cells xs of [] \<Rightarrow> None | v # vs \<Rightarrow> Some (fold min vs v))"

definition col_max :: "pyfloat list \<Rightarrow> pyfloat" where
  "col_max xs = (case valid_cells xs of [] \<Rightarrow> None | v # vs \<Rightarrow> Some (fold max vs v))"

text \<open>
  The sample variance (\<open>ddof=1\<close>) behind \<open>Series.std()\<close>: NaN with fewer than two
  values.  The standard deviation is its square root, so \<open>std > 0\<close> is \<open>variance > 0\<close>
  and \<open>(v - mean) / std > 5\<close> is \<open>v - mean > 0\<close> and \<open>(v - mean)\<^sup>2 > 25 * variance\<close>.
\<close>

definition col_var :: "pyfloat list \<Rightarrow> pyfloat" where
  "col_var xs =
     (let vs = valid_cells xs in
      if length vs < 2 then None
      else (let mu = sum_list vs / real (length vs) in
            Some (sum_list (map (\<lambda>v. (v - mu) * (v - mu)) vs) / real (length vs - 1))))"

text \<open>\<open>DataFrame.max(axis=1)\<close> and \<open>min(axis=1)\<close> over the listed cells of one row.\<close>

definition row_max :: "pyfloat list \<Rightarrow> pyfloat" where
  "row_max cells = col_max cells"

definition row_min :: "pyfloat list \<Rightarrow> pyfloat" where
  "row_min cells = col_min cells"

text \<open>Writing a computed column back into the rows.\<close>

definition set_column ::
  "(pyfloat \<Rightarrow> ohlcv \<Rightarrow> ohlcv) \<Rightarrow> pyfloat list \<Rightarrow> ohlcv list \<Rightarrow> ohlcv list" where
  "set_column upd cells rs = map (\<lambda>(r, c). upd c r) (zip rs cells)"

subsection \<open>Validation\<close>

definition ohlcv_required_columns :: "string list" where
  "ohlcv_required_columns = [''Date'', ''Open'', ''High'', ''Low'', ''Close'', ''Volume'']"

definition any_cell :: "(pyfloat \<Rightarrow> bool) \<Rightarrow> pyfloat list \<Rightarrow> bool" where
  "any_cell P xs = list_ex P xs"

text \<open>\<open>Series.pct_change().abs()\<close>: NaN in the first row.\<close>

fun fabs :: "pyfloat \<Rightarrow> pyfloat" where
  "fabs (Some x) = Some \<bar>x\<bar>"
| "fabs None = None"

definition pct_change_abs :: "pyfloat list \<Rightarrow> pyfloat list" where
  "pct_change_abs xs =
     (case xs of [] \<Rightarrow> []
      | x # rest \<Rightarrow> None # map (\<lambda>(prev, cur). fabs (fsub (fdiv cur prev) (Some 1)))
                               (zip xs rest))"

text \<open>\<open>CryptoDataValidator._check_price_anomalies\<close>: the warnings it appends.\<close>

definition check_price_anomalies :: "real \<Rightarrow> ohlcv list \<Rightarrow> validation_warning list" where
  "check_price_anomalies max_price_deviation rs =
     (let price_change = pct_change_abs (map Close rs);
          large_changes = filter (\<lambda>c. fgt c (Some max_price_deviation)) price_change
      in (if large_changes \<noteq> [] then [LargePriceChanges (length large_changes)] else [])
         @ (if flt (col_min (map Close rs)) (Some 0.000001) then [VeryLowPrice] else []))"

text \<open>\<open>CryptoDataValidator._check_volume_anomalies\<close>.\<close>

definition check_volume_anomalies :: "ohlcv list \<Rightarrow> validation_warning list" where
  "check_volume_anomalies rs =
     (let vol = map Volume rs;
          zero_volume = length (filter (\<lambda>v. v = Some 0) vol)
      in (if zero_volume > 0 then [ZeroVolume zero_volume] else [])
         @ (case (col_mean vol, col_var vol) of
              (Some mu, Some var) \<Rightarrow>
                if var > 0 then
                  (let extreme_volume =
                         length (filter (\<lambda>v. case v of None \<Rightarrow> False
                                         | Some x \<Rightarrow> x - mu > 0
                                             \<and> (x - mu) * (x - mu) > 25 * var) vol)
                   in if extreme_volume > 0 then [ExtremeVolume extreme_volume] else [])
                else []
            | _ \<Rightarrow> []))"

text \<open>\<open>Series.duplicated().sum()\<close>: the rows whose date occurred in an earlier row.\<close>

fun duplicated_count :: "date list \<Rightarrow> date list \<Rightarrow> nat" where
  "duplicated_count seen [] = 0"
| "duplicated_count seen (d # ds) =
     (if d \<in> set seen then 1 else 0) + duplicated_count (d # seen) ds"

text \<open>
  \<open>CryptoDataValidator._check_time_series\<close>: the warnings it appends and the number of
  duplicated dates, which is an error when positive.
\<close>

definition check_time_series :: "ohlcv list \<Rightarrow> validation_warning list \<times> nat" where
  "check_time_series rs =
     (let ds = map Date rs;
          unusual_gaps = length (filter (\<lambda>(prev, cur). cur - prev > 3) (zip ds (tl ds)))
      in ((if \<not> sorted ds then [DatesNotSorted] else [])
          @ (if unusual_gaps > 0 then [UnusualDateGaps unusual_gaps] else []),
          duplicated_count [] ds))"

text \<open>
  \<open>CryptoDataValidator.validate_ohlcv_data\<close>.  Step 3 of the source converts the
  columns to datetime and float; the rows here hold the converted cells.
\<close>

definition validate_ohlcv_data :: "real \<Rightarrow> ohlcv frame \<Rightarrow> validation_result" where
  "validate_ohlcv_data max_price_deviation data =
     (if empty_df data then
        \<lparr> is_valid = False, errors = [EmptyData], warnings = [], stats = None \<rparr>
      else
        (let missing_columns =
               filter (\<lambda>col. col \<notin> set (columns data)) ohlcv_required_columns
         in if missing_columns \<noteq> [] then
              \<lparr> is_valid = False, errors = [MissingColumns missing_columns], warnings = [],
                stats = None \<rparr>
            else
              (let rs = rows data;
                   price_errors =
                     (if any_cell (\<lambda>c. fle c (Some 0)) (map Open rs) then [NonPositive ''Open''] else [])
                     @ (if any_cell (\<lambda>c. fle c (Some 0)) (map High rs) then [NonPositive ''High''] else [])
                     @ (if any_cell (\<lambda>c. fle c (Some 0)) (map Low rs) then [NonPositive ''Low''] else [])
                     @ (if any_cell (\<lambda>c. fle c (Some 0)) (map Close rs) then [NonPositive ''Close''] else []);
                   volume_errors =
                     (if any_cell (\<lambda>c. flt c (Some 0)) (map Volume rs) then [NegativeVolume] else []);
                   order_errors =
                     (if list_ex (\<lambda>r. flt (High r) (Low r)) rs then [HighBelowLow] else []);
                   order_warnings =
                     (if list_ex (\<lambda>r. flt (High r) (Open r)) rs then [HighBelow ''Open''] else [])
                     @ (if list_ex (\<lambda>r. flt (High r) (Close r)) rs then [HighBelow ''Close''] else [])
                     @ (if list_ex (\<lambda>r. fgt (Low r) (Open r)) rs then [LowAbove ''Open''] else [])
                     @ (if list_ex (\<lambda>r. fgt (Low r) (Close r)) rs then [LowAbove ''Close''] else []);
                   price_warnings = check_price_anomalies max_price_deviation rs;
                   volume_warnings = check_volume_anomalies rs;
                   (series_warnings, duplicate_dates) = check_time_series rs;
                   all_errors = price_errors @ volume_errors @ order_errors
                     @ (if duplicate_dates > 0 then [DuplicateDates duplicate_dates] else [])
               in \<lparr> is_valid = (all_errors = []),
                    errors = all_errors,
                    warnings = order_warnings @ price_warnings @ volume_warnings
                               @ series_warnings,
                    stats = Some \<lparr> total_records = length rs,
                                   avg_volume = col_mean (map Volume rs),
                                   max_volume = col_max (map Volume rs) \<rparr> \<rparr>)))"

text \<open>\<open>validate_price_data\<close> of \<open>utils/validators.py\<close>.\<close>

definition validate_price_data :: "ohlcv frame \<Rightarrow> bool" where
  "validate_price_data data =
     (if empty_df data then False
      else if filter (\<lambda>col. col \<notin> set (columns data)) required_columns \<noteq> [] then False
      else if list_ex (\<lambda>r. fle (Open r) (Some 0) \<or> fle (High r) (Some 0)
                          \<or> fle (Low r) (Some 0) \<or> fle (Close r) (Some 0)) (rows data)
      then False
      else if list_ex (\<lambda>r. flt (High r) (Low r)) (rows data) then False
      else if list_ex (\<lambda>r. flt (Volume r) (Some 0)) (rows data) then False
      else True)"

subsection \<open>Cleaning\<close>

text \<open>\<open>drop_duplicates(subset=['Date'], keep='last')\<close>: of the rows with one date the last
  stays, in its place.\<close>

fun drop_duplicates_last :: "ohlcv list \<Rightarrow> ohlcv list" where
  "drop_duplicates_last [] = []"
| "drop_duplicates_last (r # rs) =
     (if Date r \<in> set (map Date rs) then drop_duplicates_last rs
      else r # drop_duplicates_last rs)"

text \<open>
  \<open>Series.interpolate(method='linear')\<close> with the default forward direction: a NaN
  between two values is filled linearly by position, a NaN after the last value takes
  that value, a NaN before the first value stays NaN.
\<close>

definition prev_valid :: "pyfloat list \<Rightarrow> nat \<Rightarrow> nat option" where
  "prev_valid xs i =
     (case filter (\<lambda>j. xs ! j \<noteq> None) (rev [0 ..< i]) of [] \<Rightarrow> None | p # _ \<Rightarrow> Some p)"

definition next_valid :: "pyfloat list \<Rightarrow> nat \<Rightarrow> nat option" where
  "next_valid xs i =
     (case filter (\<lambda>j. xs ! j \<noteq> None) [Suc i ..< length xs] of
        [] \<Rightarrow> None | q # _ \<Rightarrow> Some q)"

definition interpolate_at :: "pyfloat list \<Rightarrow> nat \<Rightarrow> pyfloat" where
  "interpolate_at xs i =
     (case xs ! i of
        Some x \<Rightarrow> Some x
      | None \<Rightarrow>
          (case prev_valid xs i of
             None \<Rightarrow> None
           | Some p \<Rightarrow>
               (case next_valid xs i of
                  None \<Rightarrow> xs ! p
                | Some q \<Rightarrow>
                    Some (the (xs ! p)
                          + (the (xs ! q) - the (xs ! p)) * real (i - p) / real (q - p)))))"

definition interpolate :: "pyfloat list \<Rightarrow> pyfloat list" where
  "interpolate xs = map (interpolate_at xs) [0 ..< length xs]"

text \<open>\<open>Series.fillna(value)\<close>.\<close>

definition fillna :: "pyfloat \<Rightarrow> pyfloat list \<Rightarrow> pyfloat list" where
  "fillna v xs = map (\<lambda>x. case x of None \<Rightarrow> v | Some y \<Rightarrow> Some y) xs"

text \<open>\<open>Series.clip(lower=0)\<close>.\<close>

fun clip_lower :: "real \<Rightarrow> pyfloat \<Rightarrow> pyfloat" where
  "clip_lower lo (Some x) = Some (max lo x)"
| "clip_lower lo None = None"

text \<open>
  \<open>CryptoDataValidator._fix_price_anomalies\<close>.  Reading a column the frame does not
  have raises \<open>KeyError\<close>, which the method catches: the assignments made before stay.
\<close>

definition fix_price_anomalies :: "string list \<Rightarrow> ohlcv list \<Rightarrow> ohlcv list" where
  "fix_price_anomalies cols rs =
     (if ''High'' \<notin> set cols \<or> ''Low'' \<notin> set cols then rs
      else
        (let rs1 = map (\<lambda>r. r \<lparr> High := row_max [High r, Low r] \<rparr>) rs;
             rs2 = map (\<lambda>r. r \<lparr> Low := row_min [High r, Low r] \<rparr>) rs1
         in if ''Open'' \<notin> set cols \<or> ''Close'' \<notin> set cols then rs2
            else
              (let rs3 = map (\<lambda>r. r \<lparr> High := row_max [High r, Open r, Close r] \<rparr>) rs2;
                   rs4 = map (\<lambda>r. r \<lparr> Low := row_min [Low r, Open r, Close r] \<rparr>) rs3
               in rs4)))"

text \<open>\<open>CryptoDataValidator._fix_volume_anomalies\<close>.\<close>

definition fix_volume_anomalies :: "string list \<Rightarrow> ohlcv list \<Rightarrow> ohlcv list" where
  "fix_volume_anomalies cols rs =
     (if ''Volume'' \<notin> set cols then rs
      else
        (let vol1 = map (clip_lower 0) (map Volume rs) in
         if list_ex (\<lambda>v. v = Some 0) vol1 then
           (let vol2 = map (\<lambda>v. if v = Some 0 then None else v) vol1;
                vol3 = interpolate vol2;
                vol4 = fillna (col_mean vol3) vol3
            in set_column (\<lambda>c r. r \<lparr> Volume := c \<rparr>) vol4 rs)
         else set_column (\<lambda>c r. r \<lparr> Volume := c \<rparr>) vol1 rs))"

text \<open>The two statements of the loop body of \<open>_fill_missing_values\<close> for one column.\<close>

definition fill_column :: "pyfloat list \<Rightarrow> pyfloat list" where
  "fill_column xs = (let ys = interpolate xs in fillna (col_mean ys) ys)"

text \<open>
  \<open>CryptoDataValidator._fill_missing_values\<close>.  The source runs the loop when any cell
  of the frame is missing; on a column without NaN the loop body changes nothing, so
  counting the NaN cells of the five numeric columns gives the same frame.
\<close>

definition fill_missing_values :: "string list \<Rightarrow> ohlcv list \<Rightarrow> ohlcv list" where
  "fill_missing_values cols rs =
     (let missing_count =
            length (filter (\<lambda>c. c = None)
              (concat (map (\<lambda>r. [Open r, High r, Low r, Close r, Volume r]) rs)))
      in if missing_count > 0 then
           (let rs1 = (if ''Open'' \<in> set cols
                       then set_column (\<lambda>c r. r \<lparr> Open := c \<rparr>) (fill_column (map Open rs)) rs
                       else rs);
                rs2 = (if ''High'' \<in> set cols
                       then set_column (\<lambda>c r. r \<lparr> High := c \<rparr>) (fill_column (map High rs1)) rs1
                       else rs1);
                rs3 = (if ''Low'' \<in> set cols
                       then set_column (\<lambda>c r. r \<lparr> Low := c \<rparr>) (fill_column (map Low rs2)) rs2
                       else rs2);
                rs4 = (if ''Close'' \<in> set cols
                       then set_column (\<lambda>c r. r \<lparr> Close := c \<rparr>) (fill_column (map Close rs3)) rs3
                       else rs3);
                rs5 = (if ''Volume'' \<in> set cols
                       then set_column (\<lambda>c r. r \<lparr> Volume := c \<rparr>) (fill_column (map Volume rs4)) rs4
                       else rs4)
            in rs5)
         else rs)"

text \<open>
  \<open>CryptoDataValidator._remove_invalid_records\<close>: the filters in order; a missing
  column ends the method with the rows filtered so far.
\<close>

definition remove_invalid_records :: "string list \<Rightarrow> ohlcv list \<Rightarrow> ohlcv list" where
  "remove_invalid_records cols rs =
     (if ''Open'' \<notin> set cols then rs
      else (let rs1 = filter (\<lambda>r. fgt (Open r) (Some 0)) rs in
      if ''High'' \<notin> set cols then rs1
      else (let rs2 = filter (\<lambda>r. fgt (High r) (Some 0)) rs1 in
      if ''Low'' \<notin> set cols then rs2
      else (let rs3 = filter (\<lambda>r. fgt (Low r) (Some 0)) rs2 in
      if ''Close'' \<notin> set cols then rs3
      else (let rs4 = filter (\<lambda>r. fgt (Close r) (Some 0)) rs3 in
      if ''Volume'' \<notin> set cols then rs4
      else (let rs5 = filter (\<lambda>r. fge (Volume r) (Some 0)) rs4 in
      filter (\<lambda>r. fge (Close r) (Some 0.000001)) rs5))))))"

text \<open>
  \<open>CryptoDataValidator.clean_ohlcv_data\<close>.  Without a \<open>Date\<close> column
  \<open>drop_duplicates\<close> raises and the \<open>except\<close> branch returns the input.
\<close>

definition clean_ohlcv_data :: "ohlcv frame \<Rightarrow> ohlcv frame" where
  "clean_ohlcv_data data =
     (if empty_df data then data
      else if ''Date'' \<notin> set (columns data) then data
      else
        (let cols = columns data;
             rs1 = drop_duplicates_last (rows data);
             rs2 = sort_key Date rs1;
             rs3 = fix_price_anomalies cols rs2;
             rs4 = fix_volume_anomalies cols rs3;
             rs5 = fill_missing_values cols rs4;
             rs6 = remove_invalid_records cols rs5
         in data \<lparr> rows := rs6 \<rparr>))"

text \<open>The invariant of a cleaned row that the specification states.\<close>

definition ohlc_invariant :: "ohlcv \<Rightarrow> bool" where
  "ohlc_invariant r =
     (fge (High r) (Open r) \<and> fge (High r) (Close r)
      \<and> fle (Low r) (Open r) \<and> fle (Low r) (Close r)
      \<and> fge (Volume r) (Some 0))"

text \<open>Rows without a missing price cell, and the price part of the invariant.\<close>

definition prices_present :: "ohlcv \<Rightarrow> bool" where
  "prices_present r =
     (Open r \<noteq> None \<and> High r \<noteq> None \<and> Low r \<noteq> None \<and> Close r \<noteq> None)"

definition price_order :: "ohlcv \<Rightarrow> bool" where
  "price_order r =
     (prices_present r \<and> fge (High r) (Open r) \<and> fge (High r) (Close r)
      \<and> fle (Low r) (Open r) \<and> fle (Low r) (Close r))"

subsection \<open>Example frames\<close>

definition ohlcv_columns :: "string list" where
  "ohlcv_columns = [''Date'', ''Open'', ''High'', ''Low'', ''Close'', ''Volume'']"

text \<open>Three consecutive days; the open of the second day is missing.\<close>

definition missing_open_frame :: "ohlcv frame" where
  "missing_open_frame = \<lparr> columns = ohlcv_columns, rows = [
     \<lparr> Date = 739036, Open = Some 100, High = Some 110, Low = Some 90, Close = Some 105,
       Volume = Some 1000 \<rparr>,
     \<lparr> Date = 739037, Open = None, High = Some 60, Low = Some 50, Close = Some 55,
       Volume = Some 1200 \<rparr>,
     \<lparr> Date = 739038, Open = Some 52, High = Some 58, Low = Some 50, Close = Some 56,
       Volume = Some 900 \<rparr>] \<rparr>"

text \<open>An empty frame that has none of the required columns.\<close>

definition empty_frame :: "ohlcv frame" where
  "empty_frame = \<lparr> columns = [], rows = [] \<rparr>"

section \<open>Indicator computation of the BNF strategy\<close>

text \<open>
  A data frame as a dictionary of columns.  \<open>stock_data['x'] = v\<close> writes the column
  into the frame object itself; \<open>stock_data['x']\<close> raises \<open>KeyError\<close> when the column is
  absent.
\<close>

datatype column = Floats "pyfloat list" | Bools "bool list"

type_synonym dataframe = "string \<rightharpoonup> column"

fun as_floats :: "column \<Rightarrow> pyfloat list" where
  "as_floats (Floats xs) = xs"
| "as_floats (Bools bs) = map (\<lambda>b. Some (if b then 1 else 0)) bs"

text \<open>\<open>series.rolling(window=n).mean()\<close>.\<close>

definition rolling_mean :: "nat \<Rightarrow> pyfloat list \<Rightarrow> pyfloat list" where
  "rolling_mean n xs = map (\<lambda>i. rolling_mean_last n (take (Suc i) xs)) [0 ..< length xs]"

text \<open>
  \<open>BNFStrategy.calculate_indicators\<close>.  An exception leaves the \<open>try\<close> block at the
  statement that raised, and the \<open>except\<close> branch returns \<open>stock_data\<close>, the frame
  object with the columns assigned so far.  A negative window makes \<open>rolling\<close> raise.
\<close>

definition BNF_calculate_indicators :: "BNFConfig \<Rightarrow> dataframe \<Rightarrow> dataframe" where
  "BNF_calculate_indicators cfg stock_data =
     (case stock_data ''Close'' of
        None \<Rightarrow> stock_data
      | Some close_col \<Rightarrow>
          if ma_period cfg < 0 then stock_data
          else
            (let close = as_floats close_col;
                 ma25 = rolling_mean (nat (ma_period cfg)) close;
                 df1 = stock_data(''ma25'' \<mapsto> Floats ma25);
                 dev = map (\<lambda>(c, m). fdiv (fsub c m) m) (zip close ma25);
                 df2 = df1(''deviation_rate'' \<mapsto> Floats dev);
                 df3 = df2(''bnf_buy_signal'' \<mapsto>
                             Bools (map (\<lambda>d. fle d (Some (deviation_threshold cfg))) dev))
             in if ''volume_ratio'' \<notin> dom df3 then
                  (case df3 ''Volume'' of
                     None \<Rightarrow> df3
                   | Some volume_col \<Rightarrow>
                       (let vol = as_floats volume_col;
                            volume_20 = rolling_mean 20 vol;
                            df4 = df3(''volume_20'' \<mapsto> Floats volume_20)
                        in df4(''volume_ratio'' \<mapsto>
                                 Floats (map (\<lambda>(v, m). fdiv v m) (zip vol volume_20)))))
                else df3))"

text \<open>A frame of two rows that has a \<open>Close\<close> column and no \<open>Volume\<close> column.\<close>

definition close_only_frame :: dataframe where
  "close_only_frame = [''Close'' \<mapsto> Floats [Some 100, Some 98]]"

section \<open>Rate limiter\<close>

text \<open>
  Time is \<open>datetime.now()\<close> in microseconds; \<open>timedelta(seconds=w)\<close> is \<open>w * 1000000\<close>.
\<close>

type_synonym time = int

record RateLimiter =
  max_requests :: int
  time_window :: int
  requests :: "time list"

definition window_us :: "RateLimiter \<Rightarrow> int" where
  "window_us rl = time_window rl * 1000000"

text \<open>
  The three methods, each run under the limiter's lock with \<open>now\<close> the clock it reads.
  \<open>can_make_request\<close> prunes the expired timestamps and returns the admission test.
\<close>

definition can_make_request :: "time \<Rightarrow> RateLimiter \<Rightarrow> bool \<times> RateLimiter" where
  "can_make_request now rl =
     (let kept = filter (\<lambda>req_time. now - req_time < window_us rl) (requests rl)
      in (int (length kept) < max_requests rl, rl \<lparr> requests := kept \<rparr>))"

definition record_request :: "time \<Rightarrow> RateLimiter \<Rightarrow> RateLimiter" where
  "record_request now rl = rl \<lparr> requests := requests rl @ [now] \<rparr>"

definition get_wait_time :: "time \<Rightarrow> RateLimiter \<Rightarrow> int" where
  "get_wait_time now rl =
     (case requests rl of
        [] \<Rightarrow> 0
      | t # ts \<Rightarrow> max 0 (fold min ts t + window_us rl - now))"

text \<open>
  A worker thread inside \<open>APIQueueManager._process_request\<close>: about to call
  \<open>can_make_request\<close>, about to call \<open>get_wait_time\<close> after a refused check, asleep until
  a wake-up time, about to call \<open>record_request\<close>, or past it (the remote call runs).
  When the call has returned, the worker loop takes the next request from the queue.
\<close>

datatype worker = AtCheck | AtWait | Asleep time | AtRecord | Calling

text \<open>
  One atomic step of a worker at clock \<open>now\<close> on the shared limiter.  The third
  component is the time the step records as consumed, if it is the recording step.  A
  worker asleep does not move before its wake-up time.
\<close>

fun worker_step :: "time \<Rightarrow> worker \<Rightarrow> RateLimiter \<Rightarrow> worker \<times> RateLimiter \<times> time option" where
  "worker_step now AtCheck rl =
     (let (ok, rl') = can_make_request now rl
      in (if ok then AtRecord else AtWait, rl', None))"
| "worker_step now AtWait rl = (Asleep (now + get_wait_time now rl), rl, None)"
| "worker_step now (Asleep wake) rl =
     (if now \<ge> wake then (AtRecord, rl, None) else (Asleep wake, rl, None))"
| "worker_step now AtRecord rl = (Calling, record_request now rl, Some now)"
| "worker_step now Calling rl = (AtCheck, rl, None)"

text \<open>
  The worker threads share one limiter.  A schedule lists, in order, which worker takes
  its next atomic step and the clock at that step; the run returns the final state and
  the log of the recorded (admitted) times.
\<close>

record pool =
  limiter :: RateLimiter
  workers :: "worker list"
  admitted :: "time list"

fun run_schedule :: "(nat \<times> time) list \<Rightarrow> pool \<Rightarrow> pool" where
  "run_schedule [] p = p"
| "run_schedule ((i, now) # sched) p =
     (if i < length (workers p) then
        (let (w', rl', recorded) = worker_step now (workers p ! i) (limiter p)
         in run_schedule sched
              \<lparr> limiter = rl', workers = (workers p)[i := w'],
                admitted = admitted p @ (case recorded of None \<Rightarrow> [] | Some t \<Rightarrow> [t]) \<rparr>)
      else run_schedule sched p)"

text \<open>The calls admitted in the trailing window of the limiter's length that ends at \<open>t\<close>.\<close>

definition admitted_in_window :: "RateLimiter \<Rightarrow> time list \<Rightarrow> time \<Rightarrow> nat" where
  "admitted_in_window rl admitted_log t =
     length (filter (\<lambda>a. a \<le> t \<and> t - a < window_us rl) admitted_log)"

text \<open>
  The invariant of a run with a single worker: the timestamps still unexpired at the
  clock, what each position of the worker knows about the limiter, the link between the
  limiter's list and the log of admitted calls, and the quota itself.
\<close>

definition unexpired :: "RateLimiter \<Rightarrow> time list \<Rightarrow> time \<Rightarrow> nat" where
  "unexpired rl admitted_log now = length (filter (\<lambda>a. now - a < window_us rl) admitted_log)"

definition worker_inv :: "RateLimiter \<Rightarrow> time list \<Rightarrow> time \<Rightarrow> worker \<Rightarrow> bool" where
  "worker_inv rl admitted_log now w =
     (case w of
        AtCheck \<Rightarrow> True
      | Calling \<Rightarrow> True
      | AtRecord \<Rightarrow> int (unexpired rl admitted_log now) < max_requests rl
      | AtWait \<Rightarrow> requests rl \<noteq> [] \<and> int (length (requests rl)) \<le> max_requests rl
      | Asleep wake \<Rightarrow>
          requests rl \<noteq> [] \<and> int (length (requests rl)) \<le> max_requests rl
          \<and> (\<exists>m\<in>set (requests rl). m + window_us rl \<le> wake))"

definition seq_inv :: "RateLimiter \<Rightarrow> worker \<Rightarrow> time list \<Rightarrow> time \<Rightarrow> bool" where
  "seq_inv rl w admitted_log now =
     ((\<forall>a\<in>set admitted_log. a \<le> now)
      \<and> (\<exists>p\<le>now. requests rl = filter (\<lambda>a. p - a < window_us rl) admitted_log)
      \<and> (\<forall>t. int (admitted_in_window rl admitted_log t) \<le> max_requests rl)
      \<and> worker_inv rl admitted_log now w)"

text \<open>
  Two workers start on a fresh limiter of one request per 60 seconds; both run their
  admission check before either records.
\<close>

definition race_pool :: pool where
  "race_pool = \<lparr>
     limiter = \<lparr> max_requests = 1, time_window = 60, requests = [] \<rparr>,
     workers = [AtCheck, AtCheck], admitted = [] \<rparr>"

definition race_schedule :: "(nat \<times> time) list" where
  "race_schedule = [(0, 1000), (1, 1001), (0, 1002), (1, 1003)]"

section \<open>Properties of the strategy evaluators\<close>

subsection \<open>Score bands\<close>

lemma Turtle_score_sum:
  "turtle_scores.total_score (Turtle_calculate_signal_score sd) =
     turtle_scores.breakout_score (Turtle_calculate_signal_score sd)
     + turtle_scores.volume_score (Turtle_calculate_signal_score sd)
     + turtle_scores.momentum_score (Turtle_calculate_signal_score sd)"
  by (simp add: Turtle_calculate_signal_score_def Let_def split del: if_split)

lemma Turtle_breakout_bounds:
  "5 \<le> turtle_scores.breakout_score (Turtle_calculate_signal_score sd)
   \<and> turtle_scores.breakout_score (Turtle_calculate_signal_score sd) \<le> 40"
  by (simp add: Turtle_calculate_signal_score_def Let_def)

lemma Turtle_volume_bounds:
  "12 \<le> turtle_scores.volume_score (Turtle_calculate_signal_score sd)
   \<and> turtle_scores.volume_score (Turtle_calculate_signal_score sd) \<le> 35"
  by (simp add: Turtle_calculate_signal_score_def Let_def)

lemma Turtle_momentum_bounds:
  "0 \<le> turtle_scores.momentum_score (Turtle_calculate_signal_score sd)
   \<and> turtle_scores.momentum_score (Turtle_calculate_signal_score sd) \<le> 25"
  by (simp add: Turtle_calculate_signal_score_def Let_def)

lemma Turtle_score_range:
  "0 \<le> turtle_scores.breakout_score (Turtle_calculate_signal_score sd)
     + turtle_scores.volume_score (Turtle_calculate_signal_score sd)
     + turtle_scores.momentum_score (Turtle_calculate_signal_score sd)"
  "turtle_scores.breakout_score (Turtle_calculate_signal_score sd)
     + turtle_scores.volume_score (Turtle_calculate_signal_score sd)
     + turtle_scores.momentum_score (Turtle_calculate_signal_score sd) \<le> 100"
  using Turtle_breakout_bounds[of sd] Turtle_volume_bounds[of sd] Turtle_momentum_bounds[of sd]
  by linarith+

lemma create_turtle_signal_scores:
  assumes "create_turtle_signal cfg symb row st days av = Some s"
  shows "TurtleSignal.total_score s =
           TurtleSignal.breakout_score s + TurtleSignal.volume_score s
           + TurtleSignal.momentum_score s
         \<and> 0 \<le> TurtleSignal.total_score s \<and> TurtleSignal.total_score s \<le> 100"
  using assms
  by (auto simp: create_turtle_signal_def Let_def Turtle_score_sum Turtle_score_range
           split: option.splits if_splits)

lemma Turtle_detect_signals_created:
  assumes "s \<in> set (Turtle_detect_signals cfg symb df av)"
  shows "create_turtle_signal cfg symb (last (rows df)) ''system1_entry''
           (system1_entry cfg) av = Some s
         \<or> create_turtle_signal cfg symb (last (rows df)) ''system2_entry''
              (system2_entry cfg) av = Some s"
  using assms
  by (auto simp: Turtle_detect_signals_def Let_def append_signal_def
           split: if_splits option.splits)

lemma Turtle_detect_signals_scores:
  assumes "s \<in> set (Turtle_detect_signals cfg symb df av)"
  shows "TurtleSignal.total_score s =
           TurtleSignal.breakout_score s + TurtleSignal.volume_score s
           + TurtleSignal.momentum_score s
         \<and> 0 \<le> TurtleSignal.total_score s \<and> TurtleSignal.total_score s \<le> 100"
  using Turtle_detect_signals_created[OF assms] create_turtle_signal_scores by blast

lemma BNF_score_sum:
  "bnf_scores.total_score (BNF_calculate_signal_score d v) =
     bnf_scores.deviation_score (BNF_calculate_signal_score d v)
     + bnf_scores.volume_score (BNF_calculate_signal_score d v)"
  by (simp add: BNF_calculate_signal_score_def Let_def split del: if_split)

lemma BNF_deviation_bounds:
  "0 \<le> bnf_scores.deviation_score (BNF_calculate_signal_score d v)
   \<and> bnf_scores.deviation_score (BNF_calculate_signal_score d v) \<le> 60"
  by (simp add: BNF_calculate_signal_score_def Let_def)

lemma BNF_volume_bounds:
  "5 \<le> bnf_scores.volume_score (BNF_calculate_signal_score d v)
   \<and> bnf_scores.volume_score (BNF_calculate_signal_score d v) \<le> 40"
  by (simp add: BNF_calculate_signal_score_def Let_def)

lemma BNF_score_range:
  "0 \<le> bnf_scores.deviation_score (BNF_calculate_signal_score d v)
     + bnf_scores.volume_score (BNF_calculate_signal_score d v)"
  "bnf_scores.deviation_score (BNF_calculate_signal_score d v)
     + bnf_scores.volume_score (BNF_calculate_signal_score d v) \<le> 100"
  using BNF_deviation_bounds[of d v] BNF_volume_bounds[of d v]
  by linarith+

lemma BNF_detect_signals_scores:
  assumes "s \<in> set (BNF_detect_signals cfg symb df)"
  shows "BNFSignal.total_score s = BNFSignal.deviation_score s + BNFSignal.volume_score s
         \<and> 0 \<le> BNFSignal.total_score s \<and> BNFSignal.total_score s \<le> 100"
  using assms
  by (auto simp: BNF_detect_signals_def Let_def BNF_score_sum BNF_score_range
           split: if_splits option.splits)

lemma CS_score_sum:
  "cs_scores.total_score (CoiledSpring_calculate_signal_score a b c d e) =
     cs_scores.volatility_score (CoiledSpring_calculate_signal_score a b c d e)
     + cs_scores.trend_score (CoiledSpring_calculate_signal_score a b c d e)
     + cs_scores.volume_score (CoiledSpring_calculate_signal_score a b c d e)
     + cs_bonus b"
  by (simp add: CoiledSpring_calculate_signal_score_def Let_def cs_bonus_def
           split del: if_split)

lemma CS_volatility_bounds:
  "0 \<le> cs_scores.volatility_score (CoiledSpring_calculate_signal_score a b c d e)
   \<and> cs_scores.volatility_score (CoiledSpring_calculate_signal_score a b c d e) \<le> 40"
  by (simp add: CoiledSpring_calculate_signal_score_def Let_def)

lemma CS_trend_bounds:
  "0 \<le> cs_scores.trend_score (CoiledSpring_calculate_signal_score a b c d e)
   \<and> cs_scores.trend_score (CoiledSpring_calculate_signal_score a b c d e) \<le> 30"
  by (simp add: CoiledSpring_calculate_signal_score_def Let_def)

lemma CS_volume_bounds:
  "0 \<le> cs_scores.volume_score (CoiledSpring_calculate_signal_score a b c d e)
   \<and> cs_scores.volume_score (CoiledSpring_calculate_signal_score a b c d e) \<le> 20"
  by (simp add: CoiledSpring_calculate_signal_score_def Let_def)

lemma cs_bonus_bounds: "0 \<le> cs_bonus b \<and> cs_bonus b \<le> 10"
  by (simp add: cs_bonus_def)

lemma CS_score_range:
  "0 \<le> cs_scores.volatility_score (CoiledSpring_calculate_signal_score a b c d e)
     + cs_scores.trend_score (CoiledSpring_calculate_signal_score a b c d e)
     + cs_scores.volume_score (CoiledSpring_calculate_signal_score a b c d e)
     + cs_bonus b"
  "cs_scores.volatility_score (CoiledSpring_calculate_signal_score a b c d e)
     + cs_scores.trend_score (CoiledSpring_calculate_signal_score a b c d e)
     + cs_scores.volume_score (CoiledSpring_calculate_signal_score a b c d e)
     + cs_bonus b \<le> 100"
  using CS_volatility_bounds[of a b c d e] CS_trend_bounds[of a b c d e]
    CS_volume_bounds[of a b c d e] cs_bonus_bounds[of b]
  by linarith+

lemma cs_make_signal_scores:
  assumes "cs_make_signal cfg symb row = Some s"
  shows "CoiledSpringSignal.total_score s =
           CoiledSpringSignal.volatility_score s + CoiledSpringSignal.trend_score s
           + CoiledSpringSignal.volume_score s + cs_bonus (volatility_60d s)
         \<and> 0 \<le> CoiledSpringSignal.total_score s \<and> CoiledSpringSignal.total_score s \<le> 100"
  using assms
  by (auto simp: cs_make_signal_def Let_def CS_score_sum CS_score_range
           split: option.splits)

lemma CoiledSpring_detect_signals_made:
  assumes "s \<in> set (CoiledSpring_detect_signals cfg lib symb df)"
  shows "cs_make_signal cfg symb
           (last (rows (CoiledSpring_calculate_indicators cfg lib df))) = Some s"
  using assms
  by (auto simp: CoiledSpring_detect_signals_def Let_def append_signal_def
           split: if_splits option.splits)

lemma CoiledSpring_detect_signals_flags:
  assumes "CoiledSpring_detect_signals cfg lib symb df \<noteq> []"
  shows "cs_conditions_held
           (last (rows (CoiledSpring_calculate_indicators cfg lib df))) = 5"
  using assms
  by (auto simp: CoiledSpring_detect_signals_def Let_def cs_conditions_held_def
           split: if_splits)

subsection \<open>The evaluators on the example inputs\<close>

lemma CS_calc_last:
  assumes "lib df = Inr f" and "rows df \<noteq> []"
  shows "last (rows (CoiledSpring_calculate_indicators cfg lib df)) =
           cs_conditions cfg (f (length (rows df) - 1)) (last (rows df))"
proof -
  let ?n = "length (rows df)"
  have n: "0 < ?n" using assms(2) by simp
  have z: "zip [0 ..< ?n] (rows df) \<noteq> []" using assms(2) by simp
  have "last (zip [0 ..< ?n] (rows df)) = (last [0 ..< ?n], last (rows df))"
    using assms(2) n by (intro last_zip) simp_all
  also have "last [0 ..< ?n] = ?n - 1" using n by (simp add: last_upt)
  finally show ?thesis
    using z by (simp add: CoiledSpring_calculate_indicators_def assms(1) last_map)
qed

lemma CS_calc_length:
  assumes "lib df = Inr f"
  shows "length (rows (CoiledSpring_calculate_indicators cfg lib df)) = length (rows df)"
  by (simp add: CoiledSpring_calculate_indicators_def assms)

lemma turtle_example_detect:
  "Turtle_detect_signals turtle_example_config ''X'' turtle_example_frame 100000
   = [turtle_example_result]"
  by (simp add: Turtle_detect_signals_def validate_data_def empty_df_def
        turtle_example_frame_def example_columns_def required_columns_def
        create_turtle_signal_def turtle_example_config_def turtle_example_row_def
        Turtle_calculate_signal_score_def dict_get_def fgt_def fge_def isna_def
        append_signal_def turtle_example_result_def Let_def)

lemma bnf_example_detect:
  "BNF_detect_signals bnf_example_config ''X'' bnf_example_frame = [bnf_example_result]"
  by (simp add: BNF_detect_signals_def validate_data_def empty_df_def
        bnf_example_frame_def example_columns_def required_columns_def
        bnf_example_config_def bnf_example_row_def
        BNF_calculate_signal_score_def dict_get_def fgt_def fge_def isna_def
        bnf_example_result_def Let_def)

lemma cs_example_last:
  "last (rows (CoiledSpring_calculate_indicators cs_example_config cs_example_lib
      cs_example_frame))
   = cs_conditions cs_example_config cs_example_numeric cs_example_row"
  by (subst CS_calc_last[where f = "\<lambda>i. cs_example_numeric"])
     (simp_all add: cs_example_lib_def cs_example_frame_def)

lemma cs_example_last4:
  "last (rows (CoiledSpring_calculate_indicators cs_example_config cs_example_lib4
      cs_example_frame))
   = cs_conditions cs_example_config
       (cs_example_numeric \<lparr> cs_numeric.price_up_6mo_days := Some 60 \<rparr>) cs_example_row"
  by (subst CS_calc_last[where
        f = "\<lambda>i. cs_example_numeric \<lparr> cs_numeric.price_up_6mo_days := Some 60 \<rparr>"])
     (simp_all add: cs_example_lib4_def cs_example_frame_def)

lemma cs_example_valid: "validate_data (Some 120) cs_example_frame"
  by (simp add: validate_data_def empty_df_def cs_example_frame_def example_columns_def
        required_columns_def dict_get_def)

lemma cs_example_detect:
  "CoiledSpring_detect_signals cs_example_config cs_example_lib ''X'' cs_example_frame
   = [cs_example_result]"
proof -
  have len: "length (rows (CoiledSpring_calculate_indicators cs_example_config cs_example_lib
                cs_example_frame)) = 120"
    by (subst CS_calc_length[where f = "\<lambda>i. cs_example_numeric"])
       (simp_all add: cs_example_lib_def cs_example_frame_def)
  have mp: "CoiledSpringConfig.min_periods cs_example_config = Some 120"
    and tp: "trend_period cs_example_config = 120"
    by (simp_all add: cs_example_config_def)
  have len0: "length (rows cs_example_frame) = 120" by (simp add: cs_example_frame_def)
  show ?thesis
    unfolding CoiledSpring_detect_signals_def Let_def cs_example_last len mp tp len0
    using cs_example_valid
    by (simp add: cs_conditions_def cs_example_numeric_def cs_example_row_def
          cs_example_config_def cs_make_signal_def CoiledSpring_calculate_signal_score_def
          dict_get_def fgt_def fge_def isna_def append_signal_def cs_example_result_def
          Let_def)
qed

lemma cs_example_held4:
  "cs_conditions_held (last (rows (CoiledSpring_calculate_indicators cs_example_config
      cs_example_lib4 cs_example_frame))) = 4"
  unfolding cs_example_last4
  by (simp add: cs_conditions_held_def cs_conditions_def cs_example_numeric_def
        cs_example_config_def dict_get_def fgt_def)

subsection \<open>Score composition\<close>

text \<open>
  Claim C1 as stated fails for the Coiled-Spring evaluator: the signal emitted on the
  example input has the sub-scores 0, 25 and 15, which sum to 40, and the total score 50,
  because the 60-day volatility of 3 adds 10 points that belong to no named sub-score.
\<close>

theorem score_composition_counterexample:
  "CoiledSpring_detect_signals cs_example_config cs_example_lib ''X'' cs_example_frame
     = [cs_example_result]
   \<and> CoiledSpringSignal.volatility_score cs_example_result
       + CoiledSpringSignal.trend_score cs_example_result
       + CoiledSpringSignal.volume_score cs_example_result = 40
   \<and> CoiledSpringSignal.total_score cs_example_result = 50"
  by (simp add: cs_example_detect) (simp add: cs_example_result_def)

text \<open>
  Claim C1, amended.  Every signal emitted by the Turtle evaluator has
  \<open>breakout_score + volume_score + momentum_score = total_score\<close>; every signal emitted by
  the BNF evaluator has \<open>deviation_score + volume_score = total_score\<close>; every signal
  emitted by the Coiled-Spring evaluator has
  \<open>volatility_score + trend_score + volume_score + bonus = total_score\<close>, where the bonus
  is 10, 5 or 0 points according to the signal's 60-day volatility.  In all three cases
  the total lies between 0 and 100.
\<close>

theorem score_composition:
  "(s1 \<in> set (Turtle_detect_signals tcfg symb1 tdf av) \<longrightarrow>
      TurtleSignal.breakout_score s1 + TurtleSignal.volume_score s1
        + TurtleSignal.momentum_score s1 = TurtleSignal.total_score s1
      \<and> 0 \<le> TurtleSignal.total_score s1 \<and> TurtleSignal.total_score s1 \<le> 100)
   \<and> (s2 \<in> set (BNF_detect_signals bcfg symb2 bdf) \<longrightarrow>
      BNFSignal.deviation_score s2 + BNFSignal.volume_score s2 = BNFSignal.total_score s2
      \<and> 0 \<le> BNFSignal.total_score s2 \<and> BNFSignal.total_score s2 \<le> 100)
   \<and> (s3 \<in> set (CoiledSpring_detect_signals ccfg lib symb3 cdf) \<longrightarrow>
      CoiledSpringSignal.volatility_score s3 + CoiledSpringSignal.trend_score s3
        + CoiledSpringSignal.volume_score s3 + cs_bonus (volatility_60d s3)
        = CoiledSpringSignal.total_score s3
      \<and> 0 \<le> CoiledSpringSignal.total_score s3 \<and> CoiledSpringSignal.total_score s3 \<le> 100)"
proof (intro conjI impI)
  assume "s1 \<in> set (Turtle_detect_signals tcfg symb1 tdf av)"
  from Turtle_detect_signals_scores[OF this]
  show "TurtleSignal.breakout_score s1 + TurtleSignal.volume_score s1
          + TurtleSignal.momentum_score s1 = TurtleSignal.total_score s1"
    and "0 \<le> TurtleSignal.total_score s1" and "TurtleSignal.total_score s1 \<le> 100"
    by simp_all
next
  assume "s2 \<in> set (BNF_detect_signals bcfg symb2 bdf)"
  from BNF_detect_signals_scores[OF this]
  show "BNFSignal.deviation_score s2 + BNFSignal.volume_score s2 = BNFSignal.total_score s2"
    and "0 \<le> BNFSignal.total_score s2" and "BNFSignal.total_score s2 \<le> 100"
    by simp_all
next
  assume "s3 \<in> set (CoiledSpring_detect_signals ccfg lib symb3 cdf)"
  from cs_make_signal_scores[OF CoiledSpring_detect_signals_made[OF this]]
  show "CoiledSpringSignal.volatility_score s3 + CoiledSpringSignal.trend_score s3
          + CoiledSpringSignal.volume_score s3 + cs_bonus (volatility_60d s3)
          = CoiledSpringSignal.total_score s3"
    and "0 \<le> CoiledSpringSignal.total_score s3"
    and "CoiledSpringSignal.total_score s3 \<le> 100"
    by simp_all
qed

theorem score_composition_witness:
  "turtle_example_result
     \<in> set (Turtle_detect_signals turtle_example_config ''X'' turtle_example_frame 100000)
   \<and> TurtleSignal.breakout_score turtle_example_result
       + TurtleSignal.volume_score turtle_example_result
       + TurtleSignal.momentum_score turtle_example_result
       = TurtleSignal.total_score turtle_example_result
   \<and> TurtleSignal.total_score turtle_example_result \<le> 100
   \<and> bnf_example_result \<in> set (BNF_detect_signals bnf_example_config ''X'' bnf_example_frame)
   \<and> BNFSignal.deviation_score bnf_example_result + BNFSignal.volume_score bnf_example_result
       = BNFSignal.total_score bnf_example_result
   \<and> BNFSignal.total_score bnf_example_result \<le> 100
   \<and> cs_example_result
       \<in> set (CoiledSpring_detect_signals cs_example_config cs_example_lib ''X''
                cs_example_frame)
   \<and> CoiledSpringSignal.volatility_score cs_example_result
       + CoiledSpringSignal.trend_score cs_example_result
       + CoiledSpringSignal.volume_score cs_example_result
       + cs_bonus (volatility_60d cs_example_result)
       = CoiledSpringSignal.total_score cs_example_result
   \<and> CoiledSpringSignal.total_score cs_example_result \<le> 100"
  using score_composition[where ?s1.0 = turtle_example_result
      and tcfg = turtle_example_config and ?symb1.0 = "''X''" and tdf = turtle_example_frame
      and av = 100000 and ?s2.0 = bnf_example_result and bcfg = bnf_example_config
      and ?symb2.0 = "''X''" and bdf = bnf_example_frame and ?s3.0 = cs_example_result
      and ccfg = cs_example_config and lib = cs_example_lib and ?symb3.0 = "''X''"
      and cdf = cs_example_frame]
  by (simp add: turtle_example_detect bnf_example_detect cs_example_detect)

subsection \<open>Coiled-Spring: all five conditions or no signal\<close>

text \<open>
  Claim C6.  When exactly four of the five Coiled-Spring conditions hold on the latest
  row of the indicator-augmented frame, \<open>detect_signals\<close> returns no signal; whenever it
  returns a signal, all five conditions hold on that row.
\<close>

theorem coiled_spring_all_or_nothing:
  "(cs_conditions_held (last (rows (CoiledSpring_calculate_indicators cfg lib df))) = 4
      \<longrightarrow> CoiledSpring_detect_signals cfg lib symb df = [])
   \<and> (CoiledSpring_detect_signals cfg lib symb df \<noteq> []
      \<longrightarrow> cs_conditions_held (last (rows (CoiledSpring_calculate_indicators cfg lib df))) = 5)"
proof (intro conjI impI)
  assume held: "cs_conditions_held
                  (last (rows (CoiledSpring_calculate_indicators cfg lib df))) = 4"
  show "CoiledSpring_detect_signals cfg lib symb df = []"
  proof (rule ccontr)
    assume "CoiledSpring_detect_signals cfg lib symb df \<noteq> []"
    from CoiledSpring_detect_signals_flags[OF this] held show False by simp
  qed
next
  assume "CoiledSpring_detect_signals cfg lib symb df \<noteq> []"
  then show "cs_conditions_held
               (last (rows (CoiledSpring_calculate_indicators cfg lib df))) = 5"
    by (rule CoiledSpring_detect_signals_flags)
qed

theorem coiled_spring_all_or_nothing_witness:
  "cs_conditions_held (last (rows (CoiledSpring_calculate_indicators cs_example_config
      cs_example_lib4 cs_example_frame))) = 4
   \<and> CoiledSpring_detect_signals cs_example_config cs_example_lib4 ''X'' cs_example_frame = []
   \<and> CoiledSpring_detect_signals cs_example_config cs_example_lib ''X'' cs_example_frame \<noteq> []
   \<and> cs_conditions_held (last (rows (CoiledSpring_calculate_indicators cs_example_config
      cs_example_lib cs_example_frame))) = 5"
  using coiled_spring_all_or_nothing[where cfg = cs_example_config and lib = cs_example_lib4
      and df = cs_example_frame and symb = "''X''"]
    coiled_spring_all_or_nothing[where cfg = cs_example_config and lib = cs_example_lib
      and df = cs_example_frame and symb = "''X''"]
  by (simp add: cs_example_held4 cs_example_detect)

subsection \<open>Turtle tier boundaries\<close>

text \<open>
  Claim C7 as stated fails for the 5-day momentum: the comparisons are strict, so a
  momentum of exactly 0.05, 0.03 or 0.01 scores 20, 15 or 8, the points of the tier
  below the cutoff, while a momentum of 0.06 scores the 25 points of the top tier.
\<close>

theorem turtle_momentum_boundary_counterexample:
  "turtle_scores.momentum_score
     (Turtle_calculate_signal_score [''momentum_5d'' \<mapsto> Some 0.05]) = 20
   \<and> turtle_scores.momentum_score
       (Turtle_calculate_signal_score [''momentum_5d'' \<mapsto> Some 0.06]) = 25
   \<and> turtle_scores.momentum_score
       (Turtle_calculate_signal_score [''momentum_5d'' \<mapsto> Some 0.03]) = 15
   \<and> turtle_scores.momentum_score
       (Turtle_calculate_signal_score [''momentum_5d'' \<mapsto> Some 0.01]) = 8"
  by (simp add: Turtle_calculate_signal_score_def dict_get_def fgt_def fge_def Let_def)

text \<open>
  Claim C7, amended.  In Turtle scoring a volume ratio exactly on a cutoff (2.0, 1.5,
  1.2) scores 35, 28, 20 and so more than every smaller ratio, and a breakout distance
  exactly on a band edge (2, 5, 10) scores 40, 30, 15 and so more than every larger
  distance: these metrics take the higher-scoring tier on the boundary.  A 5-day momentum
  exactly on a cutoff (0.05, 0.03, 0.01, 0) scores 20, 15, 8, 0 and so less than every
  larger momentum: it takes the lower tier's points.
\<close>

theorem turtle_tier_boundaries:
  fixes sd :: "string \<rightharpoonup> pyfloat"
  shows
  "(v \<in> {2, 1.5, 1.2} \<and> x < v \<longrightarrow>
      turtle_scores.volume_score (Turtle_calculate_signal_score (sd(''volume_ratio'' \<mapsto> Some x)))
      < turtle_scores.volume_score (Turtle_calculate_signal_score (sd(''volume_ratio'' \<mapsto> Some v))))
   \<and> map (\<lambda>v. turtle_scores.volume_score
                 (Turtle_calculate_signal_score (sd(''volume_ratio'' \<mapsto> Some v))))
        [2, 1.5, 1.2] = [35, 28, 20]
   \<and> (p \<in> {2, 5, 10} \<and> p < y \<longrightarrow>
      turtle_scores.breakout_score
        (Turtle_calculate_signal_score (sd(''price_above_breakout_pct'' \<mapsto> Some y)))
      < turtle_scores.breakout_score
          (Turtle_calculate_signal_score (sd(''price_above_breakout_pct'' \<mapsto> Some p))))
   \<and> map (\<lambda>p. turtle_scores.breakout_score
                 (Turtle_calculate_signal_score (sd(''price_above_breakout_pct'' \<mapsto> Some p))))
        [2, 5, 10] = [40, 30, 15]
   \<and> (c \<in> {0.05, 0.03, 0.01, 0} \<and> c < m \<longrightarrow>
      turtle_scores.momentum_score (Turtle_calculate_signal_score (sd(''momentum_5d'' \<mapsto> Some c)))
      < turtle_scores.momentum_score (Turtle_calculate_signal_score (sd(''momentum_5d'' \<mapsto> Some m))))
   \<and> map (\<lambda>c. turtle_scores.momentum_score
                 (Turtle_calculate_signal_score (sd(''momentum_5d'' \<mapsto> Some c))))
        [0.05, 0.03, 0.01, 0] = [20, 15, 8, 0]"
proof (intro conjI impI)
  assume "v \<in> {2, 1.5, 1.2} \<and> x < v"
  then show "turtle_scores.volume_score
               (Turtle_calculate_signal_score (sd(''volume_ratio'' \<mapsto> Some x)))
             < turtle_scores.volume_score
                 (Turtle_calculate_signal_score (sd(''volume_ratio'' \<mapsto> Some v)))"
    by (auto simp: Turtle_calculate_signal_score_def dict_get_def fge_def Let_def)
next
  assume "p \<in> {2, 5, 10} \<and> p < y"
  then show "turtle_scores.breakout_score
               (Turtle_calculate_signal_score (sd(''price_above_breakout_pct'' \<mapsto> Some y)))
             < turtle_scores.breakout_score
                 (Turtle_calculate_signal_score (sd(''price_above_breakout_pct'' \<mapsto> Some p)))"
    by (auto simp: Turtle_calculate_signal_score_def dict_get_def Let_def)
next
  assume "c \<in> {0.05, 0.03, 0.01, 0} \<and> c < m"
  then show "turtle_scores.momentum_score
               (Turtle_calculate_signal_score (sd(''momentum_5d'' \<mapsto> Some c)))
             < turtle_scores.momentum_score
                 (Turtle_calculate_signal_score (sd(''momentum_5d'' \<mapsto> Some m)))"
    by (auto simp: Turtle_calculate_signal_score_def dict_get_def fgt_def Let_def)
qed (simp_all add: Turtle_calculate_signal_score_def dict_get_def fgt_def fge_def Let_def)

theorem turtle_tier_boundaries_witness:
  "(2::real) \<in> {2, 1.5, 1.2} \<and> (1.9::real) < 2
   \<and> turtle_scores.volume_score
       (Turtle_calculate_signal_score (Map.empty(''volume_ratio'' \<mapsto> Some 1.9)))
     < turtle_scores.volume_score
         (Turtle_calculate_signal_score (Map.empty(''volume_ratio'' \<mapsto> Some 2)))
   \<and> (2::real) < 3
   \<and> turtle_scores.breakout_score
       (Turtle_calculate_signal_score (Map.empty(''price_above_breakout_pct'' \<mapsto> Some 3)))
     < turtle_scores.breakout_score
         (Turtle_calculate_signal_score (Map.empty(''price_above_breakout_pct'' \<mapsto> Some 2)))
   \<and> (0.05::real) \<in> {0.05, 0.03, 0.01, 0} \<and> (0.05::real) < 0.06
   \<and> turtle_scores.momentum_score
       (Turtle_calculate_signal_score (Map.empty(''momentum_5d'' \<mapsto> Some 0.05)))
     < turtle_scores.momentum_score
         (Turtle_calculate_signal_score (Map.empty(''momentum_5d'' \<mapsto> Some 0.06)))"
  using turtle_tier_boundaries[where sd = Map.empty and v = 2 and x = "1.9" and p = 2 and y = 3
      and c = "0.05" and m = "0.06"]
  by simp

section \<open>Properties of the persistence store and the gap resolver\<close>

lemma key_of_Some_iff:
  "key_of r = Some (d, s) \<longleftrightarrow> date r = Some d \<and> symbol r = Some s"
  by (auto simp: key_of_def split: option.splits)

lemma delete_row_eq: "delete_row d s db = filter (\<lambda>x. key_of x \<noteq> Some (d, s)) db"
  by (simp add: delete_row_def key_of_Some_iff)

lemma delete_old_eq:
  "delete_old rs db = filter (\<lambda>x. key_of x = None \<or> key_of x \<notin> key_of ` set rs) db"
proof (induction rs arbitrary: db)
  case Nil
  show ?case by (simp add: filter_id_conv)
next
  case (Cons r rs)
  show ?case
  proof (cases "key_of r")
    case None
    then have "(case date r of None \<Rightarrow> db
                | Some d \<Rightarrow> (case symbol r of None \<Rightarrow> db | Some s \<Rightarrow> delete_row d s db)) = db"
      by (auto simp: key_of_def split: option.splits)
    with None show ?thesis
      by (simp add: Cons.IH) (rule filter_cong, auto)
  next
    case (Some k)
    obtain d s where k: "k = (d, s)" by (cases k)
    with Some have ds: "date r = Some d" "symbol r = Some s"
      by (simp_all add: key_of_Some_iff)
    show ?thesis
      using Some k ds
      by (simp add: Cons.IH delete_row_eq) (rule filter_cong, auto)
  qed
qed

lemma insert_rows_Inr:
  assumes "insert_rows rs db = Inr db'"
  shows "db' = db @ rs
       \<and> (\<forall>r\<in>set rs. key_of r \<noteq> None \<longrightarrow> key_of r \<notin> key_of ` set db)
       \<and> distinct (map key_of (filter (\<lambda>r. key_of r \<noteq> None) rs))"
  using assms
proof (induction rs arbitrary: db)
  case Nil
  then show ?case by simp
next
  case (Cons r rs)
  from Cons.prems have ok: "\<not> (key_of r \<noteq> None \<and> key_of r \<in> key_of ` set db)"
    and rest: "insert_rows rs (db @ [r]) = Inr db'"
    by (auto split: if_splits)
  from Cons.IH[OF rest] have 1: "db' = (db @ [r]) @ rs"
    and 2: "\<forall>x\<in>set rs. key_of x \<noteq> None \<longrightarrow> key_of x \<notin> key_of ` set (db @ [r])"
    and 3: "distinct (map key_of (filter (\<lambda>r. key_of r \<noteq> None) rs))"
    by blast+
  from 2 have 4: "\<forall>x\<in>set rs. key_of x \<noteq> None \<longrightarrow> key_of x \<noteq> key_of r"
    by auto
  show ?case using 1 2 3 4 ok by auto
qed

lemma insert_rows_ok:
  assumes "\<forall>r\<in>set rs. key_of r \<noteq> None \<longrightarrow> key_of r \<notin> key_of ` set db"
    and "distinct (map key_of (filter (\<lambda>r. key_of r \<noteq> None) rs))"
  shows "insert_rows rs db = Inr (db @ rs)"
  using assms
proof (induction rs arbitrary: db)
  case Nil
  then show ?case by simp
next
  case (Cons r rs)
  have "insert_rows rs (db @ [r]) = Inr ((db @ [r]) @ rs)"
  proof (rule Cons.IH)
    show "\<forall>x\<in>set rs. key_of x \<noteq> None \<longrightarrow> key_of x \<notin> key_of ` set (db @ [r])"
      using Cons.prems by (force simp: image_iff split: if_splits)
    show "distinct (map key_of (filter (\<lambda>r. key_of r \<noteq> None) rs))"
      using Cons.prems(2) by (auto split: if_splits)
  qed
  then show ?case using Cons.prems(1) by auto
qed

lemma filter_key_unique:
  assumes "distinct (map key_of (filter (\<lambda>r. key_of r \<noteq> None) rs))"
    and "r \<in> set rs" and "key_of r = Some k"
  shows "filter (\<lambda>x. key_of x = Some k) rs = [r]"
  using assms
proof (induction rs)
  case Nil
  then show ?case by simp
next
  case (Cons a rs)
  show ?case
  proof (cases "key_of a = Some k")
    case True
    with Cons.prems(1) have none: "\<forall>x\<in>set rs. key_of x \<noteq> Some k"
      by (cases k) (force simp: image_iff)
    then have "filter (\<lambda>x. key_of x = Some k) rs = []"
      by (simp add: filter_empty_conv)
    moreover from none Cons.prems(2,3) have "r = a" by auto
    ultimately show ?thesis using True by simp
  next
    case False
    with Cons.prems have "r \<in> set rs" by auto
    moreover from Cons.prems(1) have "distinct (map key_of (filter (\<lambda>r. key_of r \<noteq> None) rs))"
      by (auto split: if_splits)
    ultimately show ?thesis using Cons.IH Cons.prems(3) False by simp
  qed
qed

lemma save_stock_data_Inr:
  assumes "save_stock_data db rs = Inr db'"
  shows "db' = delete_old rs db @ rs
       \<and> distinct (map key_of (filter (\<lambda>r. key_of r \<noteq> None) rs))"
proof (cases "rs = []")
  case True
  with assms show ?thesis by (simp add: save_stock_data_def)
next
  case False
  with assms have "insert_rows rs (delete_old rs db) = Inr db'"
    by (simp add: save_stock_data_def)
  from insert_rows_Inr[OF this] show ?thesis by blast
qed

lemma save_stock_data_key:
  assumes "save_stock_data db rs = Inr db'" and "r \<in> set rs" and "key_of r = Some k"
  shows "filter (\<lambda>x. key_of x = Some k) db' = [r]"
proof -
  from save_stock_data_Inr[OF assms(1)] have db': "db' = delete_old rs db @ rs"
    and dist: "distinct (map key_of (filter (\<lambda>r. key_of r \<noteq> None) rs))"
    by blast+
  have "filter (\<lambda>x. key_of x = Some k) (delete_old rs db) = []"
    using assms(2,3) by (force simp: delete_old_eq filter_empty_conv)
  with filter_key_unique[OF dist assms(2,3)] db' show ?thesis by simp
qed

lemma save_stock_data_single:
  assumes "key_of r = Some k"
  shows "save_stock_data db [r] = Inr (filter (\<lambda>x. key_of x \<noteq> Some k) db @ [r])"
proof -
  have del: "delete_old [r] db = filter (\<lambda>x. key_of x \<noteq> Some k) db"
    using assms by (simp add: delete_old_eq) (rule filter_cong, auto)
  have ins: "insert_rows [r] (delete_old [r] db) = Inr (delete_old [r] db @ [r])"
    by (rule insert_rows_ok) (use assms del in auto)
  have "save_stock_data db [r] = insert_rows [r] (delete_old [r] db)"
    unfolding save_stock_data_def by (simp del: delete_old.simps insert_rows.simps)
  also note ins
  finally show ?thesis by (simp only: del)
qed


lemma max_date_None_iff:
  "max_date db s = None \<longleftrightarrow> (\<forall>r\<in>set db. symbol r = Some s \<longrightarrow> date r = None)"
proof -
  let ?f = "\<lambda>r. if symbol r = Some s then date r else None"
  have "List.map_filter ?f db = [] \<longleftrightarrow> (\<forall>r\<in>set db. ?f r = None)"
    by (induction db) (auto split: option.splits)
  then show ?thesis
    by (auto simp: max_date_def split: list.splits if_splits)
qed

lemma max_date_Some:
  assumes "max_date db s = Some m"
  shows "(\<exists>r\<in>set db. symbol r = Some s \<and> date r = Some m)
       \<and> (\<forall>r\<in>set db. \<forall>d. symbol r = Some s \<and> date r = Some d \<longrightarrow> d \<le> m)"
proof -
  let ?f = "\<lambda>r. if symbol r = Some s then date r else None"
  let ?ds = "List.map_filter ?f db"
  have set_ds: "set ?ds = {d. \<exists>r\<in>set db. symbol r = Some s \<and> date r = Some d}"
    by (induction db) (auto split: option.splits if_splits)
  from assms obtain d ds where ds: "?ds = d # ds" and m: "m = fold max ds d"
    by (auto simp: max_date_def split: list.splits)
  have "m = Max (set ?ds)" unfolding ds m by (simp only: Max.set_eq_fold)
  moreover have "set ?ds \<noteq> {}" "finite (set ?ds)" using ds by simp_all
  ultimately have "m \<in> set ?ds" and "\<forall>x\<in>set ?ds. x \<le> m"
    using Max_in Max_ge by blast+
  then show ?thesis unfolding set_ds by blast
qed

lemma max_date_ge:
  assumes "r \<in> set db" and "symbol r = Some s" and "date r = Some d"
  shows "\<exists>m. max_date db s = Some m \<and> d \<le> m"
proof (cases "max_date db s")
  case None
  with assms show ?thesis by (auto simp: max_date_None_iff)
next
  case (Some m)
  from max_date_Some[OF this] assms show ?thesis using Some by blast
qed

lemma fold_missing_dates:
  "fold (\<lambda>s missing_dates.
           case g s of None \<Rightarrow> missing_dates
           | Some u \<Rightarrow> missing_dates(s \<mapsto> u)) symbols m0 x
   = (if x \<in> set symbols then (case g x of None \<Rightarrow> m0 x | Some u \<Rightarrow> Some u) else m0 x)"
  by (induction symbols arbitrary: m0) (auto split: option.splits)

lemma get_missing_dates_at:
  "get_missing_dates db symbols end_dt days_back s =
     (if s \<in> set symbols
      then update_start_for end_dt (end_dt - days_back) (max_date db s) else None)"
  unfolding get_missing_dates_def Let_def
  by (subst fold_missing_dates) (auto split: option.splits)

lemma update_start_for_mono:
  assumes "l1 \<le> l2" and "update_start_for e st (Some l2) = Some s2"
  shows "\<exists>s1. update_start_for e st (Some l1) = Some s1 \<and> s1 \<le> s2"
  using assms by (auto simp: update_start_for_def Let_def split: if_splits)

subsection \<open>Idempotent upsert\<close>

text \<open>
  Claim C3.  For rows \<open>r1\<close> and \<open>r2\<close> with the same (date, symbol) key, saving \<open>[r1]\<close> and
  then \<open>[r2]\<close> succeeds and leaves exactly one stored row with that key, namely \<open>r2\<close>
  (with \<open>r2 = r1\<close>: \<open>save([r])\<close> twice).  More generally, after any save that
  returns, each saved row that has a key is the only stored row with its key.
\<close>

theorem idempotent_upsert:
  "(key_of r1 = Some k \<and> key_of r2 = Some k \<longrightarrow>
      (\<exists>db1 db2. save_stock_data db [r1] = Inr db1 \<and> save_stock_data db1 [r2] = Inr db2
         \<and> filter (\<lambda>x. key_of x = Some k) db2 = [r2]))
   \<and> (save_stock_data db rs = Inr db' \<and> r \<in> set rs \<and> key_of r = Some k' \<longrightarrow>
      filter (\<lambda>x. key_of x = Some k') db' = [r])"
proof (intro conjI impI)
  assume keys: "key_of r1 = Some k \<and> key_of r2 = Some k"
  let ?db1 = "filter (\<lambda>x. key_of x \<noteq> Some k) db @ [r1]"
  have 1: "save_stock_data db [r1] = Inr ?db1"
    using keys by (simp add: save_stock_data_single)
  have 2: "save_stock_data ?db1 [r2] = Inr (filter (\<lambda>x. key_of x \<noteq> Some k) ?db1 @ [r2])"
    using keys by (simp add: save_stock_data_single)
  have 3: "filter (\<lambda>x. key_of x = Some k) (filter (\<lambda>x. key_of x \<noteq> Some k) ?db1 @ [r2]) = [r2]"
    using keys by (simp add: filter_empty_conv)
  from 1 2 3 show "\<exists>db1 db2. save_stock_data db [r1] = Inr db1
      \<and> save_stock_data db1 [r2] = Inr db2 \<and> filter (\<lambda>x. key_of x = Some k) db2 = [r2]"
    by blast
next
  assume "save_stock_data db rs = Inr db' \<and> r \<in> set rs \<and> key_of r = Some k'"
  then show "filter (\<lambda>x. key_of x = Some k') db' = [r]"
    using save_stock_data_key by blast
qed

theorem idempotent_upsert_witness:
  "key_of upsert_r1 = Some (739038, ''X'') \<and> key_of upsert_r2 = Some (739038, ''X'')
   \<and> (\<exists>db1 db2. save_stock_data [upsert_other] [upsert_r1] = Inr db1
        \<and> save_stock_data db1 [upsert_r2] = Inr db2
        \<and> filter (\<lambda>x. key_of x = Some (739038, ''X'')) db2 = [upsert_r2])
   \<and> save_stock_data [upsert_r1] [upsert_other, upsert_r2] = Inr [upsert_other, upsert_r2]
   \<and> upsert_r2 \<in> set [upsert_other, upsert_r2]
   \<and> filter (\<lambda>x. key_of x = Some (739038, ''X'')) [upsert_other, upsert_r2] = [upsert_r2]"
  using idempotent_upsert[where ?r1.0 = upsert_r1 and ?r2.0 = upsert_r2
      and k = "(739038, ''X'')" and db = "[upsert_other]"]
    idempotent_upsert[where db = "[upsert_r1]" and rs = "[upsert_other, upsert_r2]"
      and db' = "[upsert_other, upsert_r2]" and r = upsert_r2 and k' = "(739038, ''X'')"]
  by (simp add: key_of_def upsert_r1_def upsert_r2_def upsert_other_def save_stock_data_def
        delete_row_def)

subsection \<open>Gap resolver\<close>

text \<open>
  Claim C4 as stated fails: with the same as-of date 2024-06-01 and 190 look-back days,
  a latest stored date of 2024-05-20 gives the fetch start 2024-05-21 and the later
  latest stored date 2024-05-25 gives the later fetch start 2024-05-26.
\<close>

theorem gap_resolver_counterexample:
  "max_date resolver_db1 ''X'' = Some (ymd2ord 2024 5 20)
   \<and> max_date resolver_db2 ''X'' = Some (ymd2ord 2024 5 25)
   \<and> ymd2ord 2024 5 20 < ymd2ord 2024 5 25
   \<and> get_missing_dates resolver_db1 [''X''] (ymd2ord 2024 6 1) 190 ''X''
       = Some (ymd2ord 2024 5 21)
   \<and> get_missing_dates resolver_db2 [''X''] (ymd2ord 2024 6 1) 190 ''X''
       = Some (ymd2ord 2024 5 26)
   \<and> ymd2ord 2024 5 21 < ymd2ord 2024 5 26"
  by (simp add: get_missing_dates_def max_date_def update_start_for_def resolver_db1_def
        resolver_db2_def ymd2ord_def days_before_year_def days_before_month_def
        DAYS_BEFORE_MONTH_def is_leap_def Let_def)

text \<open>
  Claim C4, amended.  For a fixed as-of date and look-back, increasing an instrument's
  latest stored date never decreases the fetch start computed for it: when the
  instrument still gets an entry with the later latest date, it also gets one with the
  earlier latest date, or with no stored row at all, and that fetch start is not later.
\<close>

theorem gap_resolver_monotone:
  "(max_date db1 s = Some l1 \<and> max_date db2 s = Some l2 \<and> l1 \<le> l2
      \<and> get_missing_dates db2 symbols end_dt days_back s = Some s2 \<longrightarrow>
      (\<exists>s1. get_missing_dates db1 symbols end_dt days_back s = Some s1 \<and> s1 \<le> s2))
   \<and> (max_date db0 s = None
      \<and> get_missing_dates db2 symbols end_dt days_back s = Some s2 \<longrightarrow>
      get_missing_dates db0 symbols end_dt days_back s = Some (end_dt - days_back)
      \<and> end_dt - days_back \<le> s2)"
proof (intro conjI impI)
  assume a: "max_date db1 s = Some l1 \<and> max_date db2 s = Some l2 \<and> l1 \<le> l2
      \<and> get_missing_dates db2 symbols end_dt days_back s = Some s2"
  then have mem: "s \<in> set symbols"
    and "update_start_for end_dt (end_dt - days_back) (Some l2) = Some s2"
    by (auto simp: get_missing_dates_at split: if_splits)
  with a update_start_for_mono[of l1 l2 end_dt "end_dt - days_back" s2]
  show "\<exists>s1. get_missing_dates db1 symbols end_dt days_back s = Some s1 \<and> s1 \<le> s2"
    by (simp add: get_missing_dates_at)
next
  assume a: "max_date db0 s = None
      \<and> get_missing_dates db2 symbols end_dt days_back s = Some s2"
  then have mem: "s \<in> set symbols"
    and "update_start_for end_dt (end_dt - days_back) (max_date db2 s) = Some s2"
    by (auto simp: get_missing_dates_at split: if_splits)
  then show "end_dt - days_back \<le> s2"
    by (auto simp: update_start_for_def Let_def split: option.splits if_splits)
  from a mem
  show "get_missing_dates db0 symbols end_dt days_back s = Some (end_dt - days_back)"
    by (simp add: get_missing_dates_at update_start_for_def)
qed

theorem gap_resolver_monotone_witness:
  "max_date resolver_db1 ''X'' = Some 739026 \<and> max_date resolver_db2 ''X'' = Some 739031
   \<and> (739026 :: int) \<le> 739031
   \<and> get_missing_dates resolver_db2 [''X''] 739038 190 ''X'' = Some 739032
   \<and> (\<exists>s1. get_missing_dates resolver_db1 [''X''] 739038 190 ''X'' = Some s1
         \<and> s1 \<le> 739032)
   \<and> max_date ([] :: unit database) ''X'' = None
   \<and> get_missing_dates ([] :: unit database) [''X''] 739038 190 ''X'' = Some (739038 - 190)"
  using gap_resolver_monotone[where ?db1.0 = resolver_db1 and ?db2.0 = resolver_db2
      and s = "''X''" and ?l1.0 = 739026 and ?l2.0 = 739031 and symbols = "[''X'']"
      and end_dt = 739038 and days_back = 190 and ?s2.0 = 739032
      and ?db0.0 = "[] :: unit database"]
  by (simp add: get_missing_dates_def max_date_def update_start_for_def resolver_db1_def
        resolver_db2_def ymd2ord_def days_before_year_def days_before_month_def
        DAYS_BEFORE_MONTH_def is_leap_def Let_def)

text \<open>
  Claim C5.  For an instrument \<open>X\<close> with no stored rows, the as-of date 2024-06-01 and
  190 look-back days, the gap resolver returns the fetch start 2023-11-24 for \<open>X\<close>.  After
  a save of rows that cover every day from that start to the as-of date for \<open>X\<close>, the
  resolver called again with the same as-of date has no entry for \<open>X\<close>.
\<close>

theorem gap_resolver_scenario:
  "(\<forall>r\<in>set db. symbol r \<noteq> Some ''X'') \<longrightarrow>
     ord2ymd scenario_as_of = (2024, 6, 1)
     \<and> get_missing_dates db [''X''] scenario_as_of 190 = [''X'' \<mapsto> scenario_as_of - 190]
     \<and> ord2ymd (scenario_as_of - 190) = (2023, 11, 24)
     \<and> (save_stock_data db rs = Inr db'
          \<and> (\<forall>d\<in>{scenario_as_of - 190 .. scenario_as_of}.
                \<exists>r\<in>set rs. key_of r = Some (d, ''X''))
        \<longrightarrow> get_missing_dates db' [''X''] scenario_as_of 190 = Map.empty)"
proof (intro impI conjI)
  show "ord2ymd scenario_as_of = (2024, 6, 1)"
    by (simp add: scenario_as_of_def ymd2ord_def ord2ymd_def days_before_year_def
          days_before_month_def DAYS_BEFORE_MONTH_def DAYS_IN_MONTH_def is_leap_def Let_def)
  show "ord2ymd (scenario_as_of - 190) = (2023, 11, 24)"
    by (simp add: scenario_as_of_def ymd2ord_def ord2ymd_def days_before_year_def
          days_before_month_def DAYS_BEFORE_MONTH_def DAYS_IN_MONTH_def is_leap_def Let_def)
next
  assume "\<forall>r\<in>set db. symbol r \<noteq> Some ''X''"
  then have "max_date db ''X'' = None" by (simp add: max_date_None_iff)
  then show "get_missing_dates db [''X''] scenario_as_of 190
             = [''X'' \<mapsto> scenario_as_of - 190]"
    by (intro ext) (simp add: get_missing_dates_at update_start_for_def)
next
  assume a: "save_stock_data db rs = Inr db'
      \<and> (\<forall>d\<in>{scenario_as_of - 190 .. scenario_as_of}.
            \<exists>r\<in>set rs. key_of r = Some (d, ''X''))"
  then obtain r where r: "r \<in> set rs" "key_of r = Some (scenario_as_of, ''X'')"
    by force
  from a save_stock_data_Inr have "db' = delete_old rs db @ rs" by blast
  with r have "r \<in> set db'" by simp
  moreover from r(2) have "symbol r = Some ''X''" "date r = Some scenario_as_of"
    by (simp_all add: key_of_Some_iff)
  ultimately obtain m where "max_date db' ''X'' = Some m" "scenario_as_of \<le> m"
    using max_date_ge by blast
  then show "get_missing_dates db' [''X''] scenario_as_of 190 = Map.empty"
    by (intro ext) (simp add: get_missing_dates_at update_start_for_def)
qed

theorem gap_resolver_scenario_witness:
  "get_missing_dates ([] :: unit database) [''X''] scenario_as_of 190
       = [''X'' \<mapsto> scenario_as_of - 190]
   \<and> ord2ymd (scenario_as_of - 190) = (2023, 11, 24)
   \<and> save_stock_data [] (daily_rows ''X'' (scenario_as_of - 190) scenario_as_of)
       = Inr (daily_rows ''X'' (scenario_as_of - 190) scenario_as_of)
   \<and> get_missing_dates (daily_rows ''X'' (scenario_as_of - 190) scenario_as_of) [''X'']
       scenario_as_of 190 = Map.empty"
proof -
  let ?rs = "daily_rows ''X'' (scenario_as_of - 190) scenario_as_of"
  have keys: "map key_of ?rs
              = map (\<lambda>d. Some (d, ''X'')) [scenario_as_of - 190 .. scenario_as_of]"
    by (simp add: daily_rows_def key_of_def)
  have nonempty: "?rs \<noteq> []"
    by (simp add: daily_rows_def)
  have "filter (\<lambda>r. key_of r \<noteq> None) ?rs = ?rs"
    by (simp add: daily_rows_def key_of_def)
  moreover have "distinct (map key_of ?rs)"
    unfolding keys by (simp add: distinct_map inj_on_def)
  ultimately have dist: "distinct (map key_of (filter (\<lambda>r. key_of r \<noteq> None) ?rs))"
    by simp
  have del: "delete_old ?rs ([] :: unit database) = []"
    by (simp add: delete_old_eq)
  have "insert_rows ?rs (delete_old ?rs []) = Inr (delete_old ?rs [] @ ?rs)"
    by (rule insert_rows_ok[OF _ dist]) (simp add: del)
  then have saved: "save_stock_data [] ?rs = Inr ?rs"
    using nonempty by (simp add: save_stock_data_def del)
  have cover: "\<forall>d\<in>{scenario_as_of - 190 .. scenario_as_of}.
                 \<exists>r\<in>set ?rs. key_of r = Some (d, ''X'')"
    by (auto simp: daily_rows_def key_of_def)
  show ?thesis
    using gap_resolver_scenario[where db = "[] :: unit database" and rs = ?rs and db' = ?rs]
      saved cover
    by simp
qed

section \<open>Properties of the validator and the cleaner\<close>

text \<open>
  Claim C10.  A series without rows is rejected by \<open>validate_ohlcv_data\<close> with
  \<open>is_valid = False\<close> and the single error "data is empty"; no column or value check
  contributes an error or a warning, whatever columns the frame has.
  \<open>validate_price_data\<close> rejects it as well.
\<close>

theorem validate_empty_rejected:
  assumes "rows data = []"
  shows "validate_ohlcv_data max_price_deviation data
           = \<lparr> is_valid = False, errors = [EmptyData], warnings = [], stats = None \<rparr>
         \<and> \<not> validate_price_data data"
  using assms by (simp add: validate_ohlcv_data_def validate_price_data_def empty_df_def)

theorem validate_empty_rejected_witness:
  "rows empty_frame = []
   \<and> validate_ohlcv_data 0.5 empty_frame
       = \<lparr> is_valid = False, errors = [EmptyData], warnings = [], stats = None \<rparr>
   \<and> \<not> validate_price_data empty_frame"
  using validate_empty_rejected[of empty_frame "0.5"]
  by (simp add: empty_frame_def)

subsection \<open>What the cleaner does ensure\<close>

text \<open>
  When the frame has the six columns and no price cell is missing, every row the
  cleaner returns satisfies the invariant.
\<close>

lemma set_drop_duplicates_last: "set (drop_duplicates_last rs) \<subseteq> set rs"
  by (induction rs) auto

lemma row_max_2: "row_max [Some a, Some b] = Some (max b a)"
  by (simp add: row_max_def col_max_def valid_cells_def)

lemma row_min_2: "row_min [Some a, Some b] = Some (min b a)"
  by (simp add: row_min_def col_min_def valid_cells_def)

lemma row_max_3: "row_max [Some a, Some b, Some c] = Some (max c (max b a))"
  by (simp add: row_max_def col_max_def valid_cells_def)

lemma row_min_3: "row_min [Some a, Some b, Some c] = Some (min c (min b a))"
  by (simp add: row_min_def col_min_def valid_cells_def)

lemma fix_price_anomalies_order:
  assumes cols: "{''High'', ''Low'', ''Open'', ''Close''} \<subseteq> set cols"
    and pres: "\<forall>r\<in>set rs. prices_present r"
    and mem: "r' \<in> set (fix_price_anomalies cols rs)"
  shows "price_order r'"
proof -
  from cols mem obtain r where r: "r \<in> set rs"
    and r': "r' = (let r1 = r \<lparr> High := row_max [High r, Low r] \<rparr>;
                       r2 = r1 \<lparr> Low := row_min [High r1, Low r1] \<rparr>;
                       r3 = r2 \<lparr> High := row_max [High r2, Open r2, Close r2] \<rparr>
                   in r3 \<lparr> Low := row_min [Low r3, Open r3, Close r3] \<rparr>)"
    by (auto simp: fix_price_anomalies_def Let_def)
  from pres r obtain ro rh rl rc where
    "Open r = Some ro" "High r = Some rh" "Low r = Some rl" "Close r = Some rc"
    by (auto simp: prices_present_def)
  then show ?thesis
    unfolding r'
    by (simp add: Let_def price_order_def prices_present_def fge_def
          row_max_2 row_min_2 row_max_3 row_min_3 le_max_iff_disj min_le_iff_disj)
qed

lemma set_column_mem:
  assumes "r' \<in> set (set_column upd cells rs)"
  shows "\<exists>r\<in>set rs. \<exists>c. r' = upd c r"
  using assms by (auto simp: set_column_def dest: set_zip_leftD)

lemma fix_volume_anomalies_order:
  assumes "\<forall>r\<in>set rs. price_order r" and "r' \<in> set (fix_volume_anomalies cols rs)"
  shows "price_order r'"
proof -
  from assms(2) have "r' \<in> set rs \<or> (\<exists>r\<in>set rs. \<exists>c. r' = r \<lparr> Volume := c \<rparr>)"
    by (auto simp: fix_volume_anomalies_def Let_def split: if_splits dest!: set_column_mem)
  with assms(1) show ?thesis
    by (auto simp: price_order_def prices_present_def)
qed

lemma interpolate_no_missing:
  assumes "\<forall>x\<in>set xs. x \<noteq> None"
  shows "interpolate xs = xs"
proof -
  have "interpolate_at xs i = xs ! i" if "i < length xs" for i
  proof -
    from that assms have "xs ! i \<noteq> None" using nth_mem by blast
    then show ?thesis by (auto simp: interpolate_at_def)
  qed
  then have "map (interpolate_at xs) [0 ..< length xs] = map ((!) xs) [0 ..< length xs]"
    by simp
  then show ?thesis by (simp add: interpolate_def map_nth)
qed

lemma fillna_no_missing:
  assumes "\<forall>x\<in>set xs. x \<noteq> None"
  shows "fillna v xs = xs"
  using assms by (induction xs) (auto simp: fillna_def)

lemma fill_column_no_missing:
  assumes "\<forall>x\<in>set xs. x \<noteq> None"
  shows "fill_column xs = xs"
  using assms by (simp add: fill_column_def Let_def interpolate_no_missing fillna_no_missing)

lemma set_column_same:
  assumes "\<And>r. upd (sel r) r = r"
  shows "set_column upd (map sel rs) rs = rs"
  using assms by (induction rs) (auto simp: set_column_def)

lemma fill_missing_values_order:
  assumes "\<forall>r\<in>set rs. price_order r" and "r' \<in> set (fill_missing_values cols rs)"
  shows "price_order r'"
proof -
  have pres: "\<forall>r\<in>set rs. prices_present r" using assms(1) by (simp add: price_order_def)
  have o: "set_column (\<lambda>c r. r \<lparr> Open := c \<rparr>) (fill_column (map Open rs)) rs = rs"
    using pres by (subst fill_column_no_missing) (auto simp: prices_present_def set_column_same)
  have h: "set_column (\<lambda>c r. r \<lparr> High := c \<rparr>) (fill_column (map High rs)) rs = rs"
    using pres by (subst fill_column_no_missing) (auto simp: prices_present_def set_column_same)
  have l: "set_column (\<lambda>c r. r \<lparr> Low := c \<rparr>) (fill_column (map Low rs)) rs = rs"
    using pres by (subst fill_column_no_missing) (auto simp: prices_present_def set_column_same)
  have c: "set_column (\<lambda>c r. r \<lparr> Close := c \<rparr>) (fill_column (map Close rs)) rs = rs"
    using pres by (subst fill_column_no_missing) (auto simp: prices_present_def set_column_same)
  from assms(2) have "r' \<in> set rs \<or> (\<exists>r\<in>set rs. \<exists>c. r' = r \<lparr> Volume := c \<rparr>)"
    unfolding fill_missing_values_def Let_def
    by (auto simp: o h l c split: if_splits dest!: set_column_mem)
  with assms(1) show ?thesis
    by (auto simp: price_order_def prices_present_def)
qed

lemma remove_invalid_records_subset:
  "set (remove_invalid_records cols rs) \<subseteq> set rs"
  by (auto simp: remove_invalid_records_def Let_def)

lemma remove_invalid_records_volume:
  assumes "{''Open'', ''High'', ''Low'', ''Close'', ''Volume''} \<subseteq> set cols"
    and "r \<in> set (remove_invalid_records cols rs)"
  shows "fge (Volume r) (Some 0)"
  using assms by (auto simp: remove_invalid_records_def Let_def)

lemma clean_invariant_without_missing:
  assumes cols: "set ohlcv_required_columns \<subseteq> set (columns data)"
    and pres: "\<forall>r\<in>set (rows data). prices_present r"
    and mem: "r \<in> set (rows (clean_ohlcv_data data))"
  shows "ohlc_invariant r"
proof -
  have c: "{''Date'', ''Open'', ''High'', ''Low'', ''Close'', ''Volume''} \<subseteq> set (columns data)"
    using cols by (simp add: ohlcv_required_columns_def)
  from mem have "rows data \<noteq> []"
    by (auto simp: clean_ohlcv_data_def empty_df_def split: if_splits)
  with c have nonempty: "\<not> empty_df data" by (auto simp: empty_df_def)
  let ?rs2 = "sort_key Date (drop_duplicates_last (rows data))"
  let ?rs3 = "fix_price_anomalies (columns data) ?rs2"
  let ?rs4 = "fix_volume_anomalies (columns data) ?rs3"
  let ?rs5 = "fill_missing_values (columns data) ?rs4"
  have mem6: "r \<in> set (remove_invalid_records (columns data) ?rs5)"
    using mem nonempty c by (simp add: clean_ohlcv_data_def Let_def)
  have "\<forall>x\<in>set ?rs2. prices_present x"
    using pres set_drop_duplicates_last by auto
  then have "\<forall>x\<in>set ?rs3. price_order x"
    using fix_price_anomalies_order[of "columns data" ?rs2] c by auto
  then have "\<forall>x\<in>set ?rs4. price_order x"
    using fix_volume_anomalies_order by blast
  then have "\<forall>x\<in>set ?rs5. price_order x"
    using fill_missing_values_order by blast
  moreover from mem6 have "r \<in> set ?rs5"
    using remove_invalid_records_subset by blast
  ultimately have "price_order r" by blast
  moreover have "fge (Volume r) (Some 0)"
    using remove_invalid_records_volume[OF _ mem6] c by auto
  ultimately show ?thesis by (simp add: ohlc_invariant_def price_order_def)
qed

subsection \<open>The cleaner on a series with a missing open\<close>

text \<open>
  Claim C2 fails on the code.  On three consecutive days whose second open is missing,
  the cleaner first clamps high and low against the cells present (high 60, low 50) and
  afterwards interpolates the missing open to 76; the row is kept, so the cleaned series
  has a row with high 60 below its open 76.  The input passes \<open>validate_ohlcv_data\<close>,
  after which the pipeline hands it to the cleaner.
\<close>

theorem cleaner_missing_open_output:
  "rows (clean_ohlcv_data missing_open_frame) = [
     \<lparr> Date = 739036, Open = Some 100, High = Some 110, Low = Some 90, Close = Some 105,
       Volume = Some 1000 \<rparr>,
     \<lparr> Date = 739037, Open = Some 76, High = Some 60, Low = Some 50, Close = Some 55,
       Volume = Some 1200 \<rparr>,
     \<lparr> Date = 739038, Open = Some 52, High = Some 58, Low = Some 50, Close = Some 56,
       Volume = Some 900 \<rparr>]
   \<and> \<not> list_all ohlc_invariant (rows (clean_ohlcv_data missing_open_frame))
   \<and> is_valid (validate_ohlcv_data 0.5 missing_open_frame)"
  by code_simp

section \<open>Indicator computation on an internal error\<close>

text \<open>
  Claim C9 fails on the code.  On a frame with a \<open>Close\<close> column and no \<open>Volume\<close>
  column, \<open>BNFStrategy.calculate_indicators\<close> assigns \<open>ma25\<close>, \<open>deviation_rate\<close> and
  \<open>bnf_buy_signal\<close>, then raises \<open>KeyError\<close> on \<open>Volume\<close> and returns the frame with
  these three columns added and without \<open>volume_20\<close> and \<open>volume_ratio\<close>: neither the
  input nor the fully enriched frame.
\<close>

theorem bnf_indicators_partial_on_error:
  "BNF_calculate_indicators bnf_example_config close_only_frame
     = close_only_frame(
         ''ma25'' \<mapsto> Floats [None, None],
         ''deviation_rate'' \<mapsto> Floats [None, None],
         ''bnf_buy_signal'' \<mapsto> Bools [False, False])
   \<and> BNF_calculate_indicators bnf_example_config close_only_frame \<noteq> close_only_frame
   \<and> dom (BNF_calculate_indicators bnf_example_config close_only_frame)
       = {''Close'', ''ma25'', ''deviation_rate'', ''bnf_buy_signal''}"
proof -
  have ma: "rolling_mean 25 [Some 100, Some 98] = [None, None]"
    by (simp add: rolling_mean_def rolling_mean_last_def upt_rec numeral_2_eq_2)
  have res: "BNF_calculate_indicators bnf_example_config close_only_frame
     = close_only_frame(
         ''ma25'' \<mapsto> Floats [None, None],
         ''deviation_rate'' \<mapsto> Floats [None, None],
         ''bnf_buy_signal'' \<mapsto> Bools [False, False])"
    by (simp add: BNF_calculate_indicators_def bnf_example_config_def close_only_frame_def
          ma Let_def)
  have neq: "close_only_frame(
         ''ma25'' \<mapsto> Floats [None, None],
         ''deviation_rate'' \<mapsto> Floats [None, None],
         ''bnf_buy_signal'' \<mapsto> Bools [False, False]) \<noteq> close_only_frame"
  proof
    assume "close_only_frame(
         ''ma25'' \<mapsto> Floats [None, None],
         ''deviation_rate'' \<mapsto> Floats [None, None],
         ''bnf_buy_signal'' \<mapsto> Bools [False, False]) = close_only_frame"
    then have "(close_only_frame(
         ''ma25'' \<mapsto> Floats [None, None],
         ''deviation_rate'' \<mapsto> Floats [None, None],
         ''bnf_buy_signal'' \<mapsto> Bools [False, False])) ''ma25'' = close_only_frame ''ma25''"
      by simp
    then show False by (simp add: close_only_frame_def)
  qed
  show ?thesis
    unfolding res using neq by (auto simp: close_only_frame_def)
qed

section \<open>Rate limiter\<close>

subsection \<open>One worker: the quota holds\<close>

text \<open>
  With a single worker thread, a quota of at least one request and a positive window,
  every trailing window holds at most \<open>max_requests\<close> admitted calls, for every
  schedule whose clock does not run backwards.
\<close>

lemma window_us_requests [simp]: "window_us (rl \<lparr> requests := x \<rparr>) = window_us rl"
  by (simp add: window_us_def)

lemma admitted_in_window_requests [simp]:
  "admitted_in_window (rl \<lparr> requests := x \<rparr>) l t = admitted_in_window rl l t"
  by (simp add: admitted_in_window_def)

lemma unexpired_requests [simp]:
  "unexpired (rl \<lparr> requests := x \<rparr>) l t = unexpired rl l t"
  by (simp add: unexpired_def)

lemma filter_filter_window:
  assumes "p \<le> (now :: int)"
  shows "filter (\<lambda>a. now - a < W) (filter (\<lambda>a. p - a < W) xs) = filter (\<lambda>a. now - a < W) xs"
  using assms by (induction xs) auto

lemma length_filter_mono:
  assumes "\<And>x. x \<in> set xs \<Longrightarrow> P x \<Longrightarrow> Q x"
  shows "length (filter P xs) \<le> length (filter Q xs)"
  using assms by (induction xs) auto

lemma fold_min_in: "fold min ts (t :: int) \<in> set (t # ts)"
proof -
  have "fold min ts t = Min (set (t # ts))" by (simp only: Min.set_eq_fold)
  moreover have "Min (set (t # ts)) \<in> set (t # ts)" by (rule Min_in) simp_all
  ultimately show ?thesis by simp
qed

lemma seq_inv_step:
  assumes inv: "seq_inv rl w admitted_log t0"
    and le: "t0 \<le> now"
    and m: "1 \<le> max_requests rl" and W: "0 < window_us rl"
    and step: "worker_step now w rl = (w', rl', recd)"
  shows "seq_inv rl' w' (admitted_log @ (case recd of None \<Rightarrow> [] | Some t \<Rightarrow> [t])) now
       \<and> max_requests rl' = max_requests rl \<and> time_window rl' = time_window rl"
proof -
  from inv have bound: "\<forall>a\<in>set admitted_log. a \<le> t0"
    and quota: "\<forall>t. int (admitted_in_window rl admitted_log t) \<le> max_requests rl"
    and winv: "worker_inv rl admitted_log t0 w"
    by (simp_all add: seq_inv_def)
  from inv obtain p where p: "p \<le> t0"
    and req: "requests rl = filter (\<lambda>a. p - a < window_us rl) admitted_log"
    by (auto simp: seq_inv_def)
  have bound': "\<forall>a\<in>set admitted_log. a \<le> now" using bound le by auto
  have unexp: "filter (\<lambda>a. now - a < window_us rl) (requests rl)
               = filter (\<lambda>a. now - a < window_us rl) admitted_log"
    unfolding req using p le by (intro filter_filter_window) simp
  show ?thesis
  proof (cases w)
    case AtCheck
    let ?kept = "filter (\<lambda>a. now - a < window_us rl) (requests rl)"
    from step AtCheck have rl': "rl' = rl \<lparr> requests := ?kept \<rparr>" and recd: "recd = None"
      and w': "w' = (if int (length ?kept) < max_requests rl then AtRecord else AtWait)"
      by (auto simp: can_make_request_def Let_def)
    have wu: "window_us rl' = window_us rl" by (simp add: rl' window_us_def)
    have aw: "\<And>l t. admitted_in_window rl' l t = admitted_in_window rl l t"
      by (simp add: admitted_in_window_def wu)
    have cnt: "int (length ?kept) \<le> max_requests rl"
    proof -
      have "?kept = filter (\<lambda>a. a \<le> now \<and> now - a < window_us rl) admitted_log"
        unfolding unexp using bound' by (intro filter_cong) auto
      then have "length ?kept = admitted_in_window rl admitted_log now"
        by (simp add: admitted_in_window_def)
      with quota show ?thesis by simp
    qed
    have "worker_inv rl' admitted_log now w'"
    proof (cases "int (length ?kept) < max_requests rl")
      case True
      then show ?thesis
        by (simp add: w' worker_inv_def unexpired_def wu unexp rl')
    next
      case False
      with m have "?kept \<noteq> []" by auto
      with False cnt show ?thesis by (simp add: w' worker_inv_def rl')
    qed
    moreover have "\<exists>p\<le>now. requests rl' = filter (\<lambda>a. p - a < window_us rl') admitted_log"
      by (rule exI[of _ now]) (simp add: rl' unexp)
    ultimately show ?thesis
      using bound' quota by (simp add: seq_inv_def recd aw) (simp add: rl')
  next
    case AtWait
    from step AtWait have rl': "rl' = rl" and recd: "recd = None"
      and w': "w' = Asleep (now + get_wait_time now rl)"
      by auto
    from winv AtWait have ne: "requests rl \<noteq> []"
      and len: "int (length (requests rl)) \<le> max_requests rl"
      by (simp_all add: worker_inv_def)
    from ne obtain t ts where tts: "requests rl = t # ts" by (cases "requests rl") auto
    have "fold min ts t \<in> set (requests rl)" unfolding tts by (rule fold_min_in)
    moreover have "fold min ts t + window_us rl \<le> now + get_wait_time now rl"
      by (simp add: get_wait_time_def tts)
    ultimately have "worker_inv rl admitted_log now w'"
      using ne len by (auto simp: w' worker_inv_def)
    moreover have "\<exists>p\<le>now. requests rl = filter (\<lambda>a. p - a < window_us rl) admitted_log"
      using p le req by (intro exI[of _ p]) simp
    ultimately show ?thesis
      using bound' quota by (simp add: seq_inv_def recd rl')
  next
    case (Asleep wake)
    from step Asleep have rl': "rl' = rl" and recd: "recd = None"
      and w': "w' = (if now \<ge> wake then AtRecord else Asleep wake)"
      by (auto split: if_splits)
    from winv Asleep obtain mm where ne: "requests rl \<noteq> []"
      and len: "int (length (requests rl)) \<le> max_requests rl"
      and mm: "mm \<in> set (requests rl)" "mm + window_us rl \<le> wake"
      by (auto simp: worker_inv_def)
    have "worker_inv rl admitted_log now w'"
    proof (cases "now \<ge> wake")
      case True
      have "\<not> (now - mm < window_us rl)" using mm(2) True by simp
      with mm(1) have "length (filter (\<lambda>a. now - a < window_us rl) (requests rl))
                       < length (requests rl)"
        by (intro length_filter_less) auto
      with len show ?thesis
        using True by (simp add: w' worker_inv_def unexpired_def unexp[symmetric])
    next
      case False
      with ne len mm show ?thesis by (auto simp: w' worker_inv_def)
    qed
    moreover have "\<exists>p\<le>now. requests rl = filter (\<lambda>a. p - a < window_us rl) admitted_log"
      using p le req by (intro exI[of _ p]) simp
    ultimately show ?thesis
      using bound' quota by (simp add: seq_inv_def recd rl')
  next
    case AtRecord
    from step AtRecord have rl': "rl' = rl \<lparr> requests := requests rl @ [now] \<rparr>"
      and recd: "recd = Some now" and w': "w' = Calling"
      by (auto simp: record_request_def)
    have wu: "window_us rl' = window_us rl" by (simp add: rl' window_us_def)
    from winv AtRecord have free0: "int (unexpired rl admitted_log t0) < max_requests rl"
      by (simp add: worker_inv_def)
    have "unexpired rl admitted_log now \<le> unexpired rl admitted_log t0"
      unfolding unexpired_def using le by (intro length_filter_mono) auto
    with free0 have free: "int (unexpired rl admitted_log now) < max_requests rl" by simp
    have q': "int (admitted_in_window rl (admitted_log @ [now]) t) \<le> max_requests rl" for t
    proof (cases "now \<le> t")
      case True
      have "admitted_in_window rl admitted_log t \<le> unexpired rl admitted_log now"
        unfolding admitted_in_window_def unexpired_def using True
        by (intro length_filter_mono) auto
      then have "admitted_in_window rl (admitted_log @ [now]) t
                 \<le> unexpired rl admitted_log now + 1"
        by (simp add: admitted_in_window_def)
      with free show ?thesis by simp
    next
      case False
      then have "admitted_in_window rl (admitted_log @ [now]) t
                 = admitted_in_window rl admitted_log t"
        by (simp add: admitted_in_window_def)
      with quota show ?thesis by simp
    qed
    have "requests rl @ [now] = filter (\<lambda>a. p - a < window_us rl) (admitted_log @ [now])"
      using req p le W by simp
    then have e2: "\<exists>p\<le>now. requests rl'
                     = filter (\<lambda>a. p - a < window_us rl') (admitted_log @ [now])"
      using p le by (intro exI[of _ p]) (simp add: rl')
    have b2: "\<forall>a\<in>set (admitted_log @ [now]). a \<le> now" using bound' by simp
    have q2: "\<forall>t. int (admitted_in_window rl' (admitted_log @ [now]) t) \<le> max_requests rl'"
      using q' by (simp add: rl')
    have "seq_inv rl' Calling (admitted_log @ [now]) now"
      unfolding seq_inv_def using b2 e2 q2 by (simp add: worker_inv_def)
    then show ?thesis by (simp add: recd w' rl')
  next
    case Calling
    from step Calling have rl': "rl' = rl" and recd: "recd = None" and w': "w' = AtCheck"
      by auto
    have "\<exists>p\<le>now. requests rl = filter (\<lambda>a. p - a < window_us rl) admitted_log"
      using p le req by (intro exI[of _ p]) simp
    then show ?thesis
      using bound' quota by (simp add: seq_inv_def recd rl' w' worker_inv_def)
  qed
qed


lemma window_us_cong:
  assumes "time_window rl' = time_window rl"
  shows "admitted_in_window rl' l t = admitted_in_window rl l t"
  using assms by (simp add: admitted_in_window_def window_us_def)

lemma single_worker_run:
  assumes "workers p = [w]"
    and "seq_inv (limiter p) w (admitted p) t0"
    and "1 \<le> max_requests (limiter p)" and "0 < time_window (limiter p)"
    and "sorted (t0 # map snd sched)"
  shows "\<exists>w' t1. workers (run_schedule sched p) = [w']
           \<and> seq_inv (limiter (run_schedule sched p)) w' (admitted (run_schedule sched p)) t1
           \<and> max_requests (limiter (run_schedule sched p)) = max_requests (limiter p)
           \<and> time_window (limiter (run_schedule sched p)) = time_window (limiter p)"
  using assms
proof (induction sched arbitrary: p w t0)
  case Nil
  then show ?case by auto
next
  case (Cons st sched)
  obtain i now where st: "st = (i, now)" by (cases st)
  from Cons.prems(5) st have le: "t0 \<le> now" and srt: "sorted (now # map snd sched)"
    by simp_all
  show ?case
  proof (cases "i < length (workers p)")
    case False
    have "sorted (t0 # map snd sched)" using Cons.prems(5) st by auto
    from Cons.IH[OF Cons.prems(1) Cons.prems(2) Cons.prems(3) Cons.prems(4) this]
    show ?thesis using False st by simp
  next
    case True
    with Cons.prems(1) have i0: "i = 0" by simp
    obtain w' rl' recd where step: "worker_step now w (limiter p) = (w', rl', recd)"
      by (cases "worker_step now w (limiter p)")
    let ?p' = "\<lparr> limiter = rl', workers = [w'],
                 admitted = admitted p @ (case recd of None \<Rightarrow> [] | Some t \<Rightarrow> [t]) \<rparr>"
    have W: "0 < window_us (limiter p)" using Cons.prems(4) by (simp add: window_us_def)
    from seq_inv_step[OF Cons.prems(2) le Cons.prems(3) W step]
    have inv': "seq_inv (limiter ?p') w' (admitted ?p') now"
      and mr: "max_requests rl' = max_requests (limiter p)"
      and tw: "time_window rl' = time_window (limiter p)"
      by simp_all
    have run: "run_schedule (st # sched) p = run_schedule sched ?p'"
      using True i0 step st Cons.prems(1) by simp
    have "\<exists>w'' t1. workers (run_schedule sched ?p') = [w'']
           \<and> seq_inv (limiter (run_schedule sched ?p')) w''
                 (admitted (run_schedule sched ?p')) t1
           \<and> max_requests (limiter (run_schedule sched ?p')) = max_requests (limiter ?p')
           \<and> time_window (limiter (run_schedule sched ?p')) = time_window (limiter ?p')"
      by (rule Cons.IH[OF _ inv' _ _ srt]) (simp_all add: mr tw Cons.prems(3) Cons.prems(4))
    then show ?thesis unfolding run by (simp add: mr tw)
  qed
qed

lemma seq_inv_fresh:
  assumes "requests rl = []" and "0 \<le> max_requests rl"
  shows "seq_inv rl AtCheck [] t0"
  using assms by (auto simp: seq_inv_def worker_inv_def admitted_in_window_def)

lemma single_worker_quota:
  assumes "workers p = [AtCheck]" and "requests (limiter p) = []" and "admitted p = []"
    and "1 \<le> max_requests (limiter p)" and "0 < time_window (limiter p)"
    and "sorted (map snd sched)"
  shows "int (admitted_in_window (limiter p) (admitted (run_schedule sched p)) t)
         \<le> max_requests (limiter p)"
proof -
  obtain t0 where t0: "sorted (t0 # map snd sched)"
  proof (cases sched)
    case Nil
    then show ?thesis using that[of 0] by simp
  next
    case (Cons a list)
    then show ?thesis using that[of "snd a"] assms(6) by simp
  qed
  have "seq_inv (limiter p) AtCheck (admitted p) t0"
    using assms(2,3,4) by (simp add: seq_inv_fresh)
  from single_worker_run[OF assms(1) this assms(4) assms(5) t0]
  obtain w' t1 where
    inv: "seq_inv (limiter (run_schedule sched p)) w' (admitted (run_schedule sched p)) t1"
    and mr: "max_requests (limiter (run_schedule sched p)) = max_requests (limiter p)"
    and tw: "time_window (limiter (run_schedule sched p)) = time_window (limiter p)"
    by blast
  from inv have "int (admitted_in_window (limiter (run_schedule sched p))
                   (admitted (run_schedule sched p)) t)
                 \<le> max_requests (limiter (run_schedule sched p))"
    by (simp add: seq_inv_def)
  then show ?thesis by (simp add: mr window_us_cong[OF tw])
qed

subsection \<open>Concurrent workers\<close>

text \<open>
  Claim C8 fails on the code.  The admission check and the recording are two separate
  critical sections.  With a quota of one request per 60 seconds, two workers that both
  run \<open>can_make_request\<close> before either runs \<open>record_request\<close> are both admitted: the
  trailing window that ends at the second recording holds two admitted calls.
\<close>

theorem rate_limiter_race:
  "admitted (run_schedule race_schedule race_pool) = [1002, 1003]
   \<and> workers (run_schedule race_schedule race_pool) = [Calling, Calling]
   \<and> admitted_in_window (limiter race_pool)
        (admitted (run_schedule race_schedule race_pool)) 1003 = 2
   \<and> max_requests (limiter race_pool) = 1"
  by (simp add: race_schedule_def race_pool_def can_make_request_def record_request_def
        admitted_in_window_def window_us_def Let_def)

end
